theory Spec2Isabelle
  imports Complex_Main
begin

section \<open>JavaScript values, objects and strings\<close>

text \<open>
  The report script reads its data with \<^verbatim>\<open>JSON.parse\<close> and resolves KPI values by
  property lookups on plain objects. The model keeps the parts of JavaScript that those
  lookups depend on.

  \<^item> Numbers are exact rationals. The values come from JSON, so they are finite; the
    rounding of IEEE doubles and the decimal formatting done by \<^verbatim>\<open>toFixed\<close> are not
    modelled.
  \<^item> Strings are lists of code units, each code unit in the Latin-1 range (this covers the
    French labels of the registry): \<^verbatim>\<open>0xE9\<close> is e-acute, \<^verbatim>\<open>0xE0\<close> is a-grave.
  \<^item> An object is the association list of its own properties, in enumeration order.
    A lookup \<^verbatim>\<open>obj[k]\<close> that finds no own property continues in
    \<^verbatim>\<open>Object.prototype\<close>, whose members are listed in \<open>object_prototype_props\<close>.
  \<^item> A property access on \<^verbatim>\<open>undefined\<close> or \<^verbatim>\<open>null\<close>, and the operator
    \<^verbatim>\<open>in\<close> applied to a non-object, raise \<^verbatim>\<open>TypeError\<close>: functions that can raise
    return \<open>js_error + 'a\<close>.
\<close>

datatype js_error = TypeError

text \<open>
  The values that the resolver can return: \<^verbatim>\<open>undefined\<close>, \<^verbatim>\<open>null\<close>, a number, or an
  object that is not a number (the \<^verbatim>\<open>_metadata\<close> record, or a member of
  \<^verbatim>\<open>Object.prototype\<close>), named by the property it was read from.
\<close>

datatype jsvalue = JUndefined | JNull | JNum rat | JObject string

text \<open>The result of a property lookup on a plain object.\<close>

datatype 'a jsprop = Undefined | Own 'a | Inherited string

definition object_prototype_props :: "string list" where
  "object_prototype_props =
     [''constructor'', ''__proto__'', ''hasOwnProperty'', ''isPrototypeOf'',
      ''propertyIsEnumerable'', ''toLocaleString'', ''toString'', ''valueOf'',
      ''__defineGetter__'', ''__defineSetter__'', ''__lookupGetter__'', ''__lookupSetter__'']"

definition js_get :: "(string \<times> 'a) list \<Rightarrow> string \<Rightarrow> 'a jsprop" where
  "js_get obj k =
     (case map_of obj k of
        Some v \<Rightarrow> Own v
      | None \<Rightarrow> if k \<in> set object_prototype_props then Inherited k else Undefined)"

text \<open>
  A value used as a property key is converted to a string. For the members of
  \<^verbatim>\<open>Object.prototype\<close> this is the text of a native function (as V8 prints it), and
  \<^verbatim>\<open>[object Object]\<close> for \<^verbatim>\<open>__proto__\<close>, whose value is \<^verbatim>\<open>Object.prototype\<close> itself.
\<close>

definition native_text :: "string \<Rightarrow> string" where
  "native_text p =
     (if p = ''__proto__'' then ''[object Object]''
      else ''function '' @ (if p = ''constructor'' then ''Object'' else p) @ ''() { [native code] }'')"

definition toLowerCase_char :: "char \<Rightarrow> char" where
  "toLowerCase_char c =
     (let n = (of_char c :: nat)
      in if (65 \<le> n \<and> n \<le> 90) \<or> (192 \<le> n \<and> n \<le> 222 \<and> n \<noteq> 215)
         then char_of (n + 32) else c)"

definition toLowerCase :: "string \<Rightarrow> string" where
  "toLowerCase s = map toLowerCase_char s"

fun startsWith :: "string \<Rightarrow> string \<Rightarrow> bool" where
  "startsWith s [] = True"
| "startsWith [] (p # ps) = False"
| "startsWith (c # cs) (p # ps) = (c = p \<and> startsWith cs ps)"

text \<open>\<^verbatim>\<open>s.includes(p)\<close>: \<open>p\<close> occurs in \<open>s\<close> as a contiguous substring.\<close>

fun js_includes :: "string \<Rightarrow> string \<Rightarrow> bool" where
  "js_includes [] p = (p = [])"
| "js_includes (c # cs) p = (startsWith (c # cs) p \<or> js_includes cs p)"

text \<open>\<^verbatim>\<open>s.replace(/_/g, ' ')\<close>\<close>

definition replace_underscores :: "string \<Rightarrow> string" where
  "replace_underscores s = map (\<lambda>c. if c = CHR ''_'' then CHR '' '' else c) s"

section \<open>The data of a report\<close>

text \<open>
  \<^verbatim>\<open>extracted_kpis\<close> maps a French label to a year table, or to \<^verbatim>\<open>null\<close>; a year
  table maps a year label to a number or \<^verbatim>\<open>null\<close> (\<open>None\<close>).
  \<^verbatim>\<open>computed_ratios\<close> maps flat keys \<^verbatim>\<open>key_token\<close> to a number or \<^verbatim>\<open>null\<close> and may
  carry a \<^verbatim>\<open>_metadata\<close> record.
\<close>

type_synonym year_table = "(string \<times> rat option) list"

type_synonym extracted_kpis = "(string \<times> year_table option) list"

record metadata =
  available_years :: "string list option"

record computed_ratios =
  entries :: "(string \<times> rat option) list"
  cr_metadata :: "metadata option"

text \<open>
  Both kinds of table are read with \<open>map_of\<close>, the lookup of own properties. The keys
  under which the program reads them are the labels of the registry, the text of a native
  function and the normalised years; none of them is the name of an inherited property
  (lemmas \<open>dbKey_of_not_inherited\<close> and \<open>normalizedYear_not_inherited\<close>).
\<close>

text \<open>What a year table holds under a year label: nothing, \<^verbatim>\<open>null\<close>, or a number.\<close>

datatype cell = Absent | CNull | CNum rat

definition year_get :: "year_table \<Rightarrow> string \<Rightarrow> cell" where
  "year_get t y = (case map_of t y of None \<Rightarrow> Absent | Some None \<Rightarrow> CNull | Some (Some r) \<Rightarrow> CNum r)"

text \<open>\<^verbatim>\<open>obj[k]\<close> on an entry of \<^verbatim>\<open>extracted_kpis\<close>: raises on \<^verbatim>\<open>undefined\<close> and \<^verbatim>\<open>null\<close>.\<close>

definition member :: "year_table option option \<Rightarrow> string \<Rightarrow> js_error + cell" where
  "member obj k = (case obj of Some (Some t) \<Rightarrow> Inr (year_get t k) | _ \<Rightarrow> Inl TypeError)"

text \<open>\<^verbatim>\<open>obj?.[k]\<close>: \<^verbatim>\<open>undefined\<close> when the object is \<^verbatim>\<open>undefined\<close> or \<^verbatim>\<open>null\<close>.\<close>

definition opt_member :: "year_table option option \<Rightarrow> string \<Rightarrow> cell" where
  "opt_member obj k = (case obj of Some (Some t) \<Rightarrow> year_get t k | _ \<Rightarrow> Absent)"

text \<open>\<^verbatim>\<open>k in obj\<close>: raises when the right-hand side is not an object.\<close>

definition in_op :: "string \<Rightarrow> year_table option \<Rightarrow> js_error + bool" where
  "in_op k obj = (case obj of Some t \<Rightarrow> Inr (year_get t k \<noteq> Absent) | None \<Rightarrow> Inl TypeError)"

text \<open>\<^verbatim>\<open>x || 0\<close>, \<^verbatim>\<open>x || null\<close> and plain \<^verbatim>\<open>x\<close> for the content of a year table.\<close>

definition cell_or_zero :: "cell \<Rightarrow> rat" where
  "cell_or_zero c = (case c of CNum r \<Rightarrow> r | _ \<Rightarrow> 0)"

definition cell_or_null :: "cell \<Rightarrow> jsvalue" where
  "cell_or_null c = (case c of CNum r \<Rightarrow> if r = 0 then JNull else JNum r | _ \<Rightarrow> JNull)"

definition cell_value :: "cell \<Rightarrow> jsvalue" where
  "cell_value c = (case c of Absent \<Rightarrow> JUndefined | CNull \<Rightarrow> JNull | CNum r \<Rightarrow> JNum r)"

text \<open>\<^verbatim>\<open>computedRatios[flatKey]\<close>\<close>

definition flat_get :: "computed_ratios \<Rightarrow> string \<Rightarrow> jsvalue" where
  "flat_get computedRatios flatKey =
     (if flatKey = ''_metadata'' \<and> cr_metadata computedRatios \<noteq> None then JObject ''_metadata''
      else case js_get (entries computedRatios) flatKey of
             Own None \<Rightarrow> JNull
           | Own (Some r) \<Rightarrow> JNum r
           | Inherited p \<Rightarrow> JObject p
           | Undefined \<Rightarrow> JUndefined)"

text \<open>\<^verbatim>\<open>try { body } catch (error) { handler }\<close>\<close>

definition try_catch :: "(js_error + 'a) \<Rightarrow> (js_error \<Rightarrow> js_error + 'a) \<Rightarrow> js_error + 'a" where
  "try_catch body handler = (case body of Inl e \<Rightarrow> handler e | Inr v \<Rightarrow> Inr v)"

section \<open>The KPI resolver\<close>

definition yearMappings :: "(string \<times> string) list" where
  "yearMappings =
     [(''n'', ''N''), (''n1'', ''N-1''), (''n2'', ''N-2''),
      (''n3'', ''N-3''), (''n4'', ''N-4''), (''n5'', ''N-5'')]"

text \<open>
  The local \<^verbatim>\<open>normalizedYear\<close> of \<^verbatim>\<open>getKPIValue\<close>, as the property key it is used as:
  \<^verbatim>\<open>if (yearMappings[year]) normalizedYear = yearMappings[year]\<close>.
\<close>

definition normalizedYear :: "string \<Rightarrow> string" where
  "normalizedYear year =
     (case js_get yearMappings year of
        Own v \<Rightarrow> if v \<noteq> [] then v else year
      | Inherited p \<Rightarrow> native_text p
      | Undefined \<Rightarrow> year)"

definition label_resultat_exploitation :: string where
  "label_resultat_exploitation = ''R'' @ [CHR 0xE9] @ ''sultat d'exploitation''"

definition label_dotations_exploitation :: string where
  "label_dotations_exploitation = ''Dotations d'exploitation''"

definition label_reprises_exploitation :: string where
  "label_reprises_exploitation = ''Reprises d'exploitation; transferts de charges''"

definition label_actif_circulant :: string where
  "label_actif_circulant = ''Actif circulant''"

definition label_passif_circulant :: string where
  "label_passif_circulant = ''Passif circulant''"

definition kpiNameMappings :: "(string \<times> string) list" where
  "kpiNameMappings =
     [(''chiffre_d_affaires'', ''Chiffre d'affaires''),
      (''resultat_net'', ''R'' @ [CHR 0xE9] @ ''sultat Net''),
      (''capitaux_propres'', ''Capitaux propres''),
      (''resultat_d_exploitation'', label_resultat_exploitation),
      (''dotations_d_exploitation'', label_dotations_exploitation),
      (''reprises_d_exploitation'', label_reprises_exploitation),
      (''redevances_credit_bail'', ''Redevances de cr'' @ [CHR 0xE9] @ ''dit-bail''),
      (''tresorerie_actif'', ''Tr'' @ [CHR 0xE9] @ ''sorerie-Actif''),
      (''titres_valeurs_placement'', ''Titres Valeurs de placement''),
      (''dettes_financement'', ''Dettes de financement''),
      (''tresorerie_passif'', ''Tr'' @ [CHR 0xE9] @ ''sorerie-passif''),
      (''tresorerie_nette'', ''Tr'' @ [CHR 0xE9] @ ''sorerie nette''),
      (''comptes_associes_actif'', ''Compte d'associ'' @ [CHR 0xE9] @ ''s (Actif)''),
      (''comptes_associes_passif'', ''Compte d'associ'' @ [CHR 0xE9] @ ''s (Passif)''),
      (''redevances_moins_un_an'',
         ''Redevances restant '' @ [CHR 0xE0] @ '' payer (a moins d'un an)''),
      (''redevances_plus_un_an'',
         ''Redevances restant '' @ [CHR 0xE0] @ '' payer (a plus d'un an)''),
      (''prix_achat_residuel'', ''Prix d'achat r'' @ [CHR 0xE9] @ ''siduel en fin du contrat''),
      (''actif_circulant'', label_actif_circulant),
      (''passif_circulant'', label_passif_circulant),
      (''actif_circulant_total'', ''Actif circulant total'')]"

text \<open>
  \<^verbatim>\<open>calculateEBITDA(year)\<close> and \<^verbatim>\<open>calculateBFR(year)\<close>. The program calls them with a
  normalised year or with \<^verbatim>\<open>'N'\<close>.
\<close>

definition calculateEBITDA :: "extracted_kpis \<Rightarrow> string \<Rightarrow> js_error + jsvalue" where
  "calculateEBITDA extractedKPIs year =
     try_catch
       (let resultatExploitation =
              cell_or_zero (opt_member (map_of extractedKPIs label_resultat_exploitation) year);
            dotationsExploitation =
              cell_or_zero (opt_member (map_of extractedKPIs label_dotations_exploitation) year);
            reprisesExploitation =
              cell_or_zero (opt_member (map_of extractedKPIs label_reprises_exploitation) year);
            ebitda = resultatExploitation + dotationsExploitation - reprisesExploitation
        in Inr (JNum ebitda))
       (\<lambda>error. Inr JNull)"

definition calculateBFR :: "extracted_kpis \<Rightarrow> string \<Rightarrow> js_error + jsvalue" where
  "calculateBFR extractedKPIs year =
     try_catch
       (let actifCirculant =
              cell_or_zero (opt_member (map_of extractedKPIs label_actif_circulant) year);
            passifCirculant =
              cell_or_zero (opt_member (map_of extractedKPIs label_passif_circulant) year);
            bfr = actifCirculant - passifCirculant
        in Inr (JNum bfr))
       (\<lambda>error. Inr JNull)"

text \<open>
  The loop of the final fallback, over \<^verbatim>\<open>Object.entries(extractedKPIs)\<close>; falling out
  of the loop reaches \<^verbatim>\<open>return null\<close>.
\<close>

fun search_entries :: "extracted_kpis \<Rightarrow> string \<Rightarrow> string \<Rightarrow> js_error + jsvalue" where
  "search_entries [] searchPattern year = Inr JNull"
| "search_entries ((key, value) # rest) searchPattern year =
     (if js_includes (toLowerCase key) searchPattern \<or> js_includes searchPattern (toLowerCase key)
      then (if value \<noteq> None
            then (case in_op year value of
                    Inl e \<Rightarrow> Inl e
                  | Inr found \<Rightarrow>
                      if found
                      then (case member (Some value) year of
                              Inl e \<Rightarrow> Inl e
                            | Inr c \<Rightarrow> Inr (cell_value c))
                      else search_entries rest searchPattern year)
            else search_entries rest searchPattern year)
      else search_entries rest searchPattern year)"

definition final_fallback :: "extracted_kpis \<Rightarrow> string \<Rightarrow> string \<Rightarrow> js_error + jsvalue" where
  "final_fallback extractedKPIs kpiName year =
     (if extractedKPIs \<noteq> []
      then search_entries extractedKPIs (replace_underscores (toLowerCase kpiName)) year
      else Inr JNull)"

text \<open>
  \<^verbatim>\<open>kpiNameMappings[kpiName]\<close>, as the property key that \<^verbatim>\<open>extractedKPIs[dbKey]\<close> uses;
  \<open>None\<close> when the value is falsy.
\<close>

definition dbKey_of :: "string \<Rightarrow> string option" where
  "dbKey_of kpiName =
     (case js_get kpiNameMappings kpiName of
        Own l \<Rightarrow> if l \<noteq> [] then Some l else None
      | Inherited p \<Rightarrow> Some (native_text p)
      | Undefined \<Rightarrow> None)"

definition getKPIValue ::
  "computed_ratios \<Rightarrow> extracted_kpis \<Rightarrow> string \<Rightarrow> string \<Rightarrow> js_error + jsvalue" where
  "getKPIValue computedRatios extractedKPIs kpiName year =
     (let flatKey = kpiName @ ''_'' @ year
      in if flat_get computedRatios flatKey \<noteq> JUndefined
         then Inr (flat_get computedRatios flatKey)
         else if kpiName = ''ebitda'' then calculateEBITDA extractedKPIs (normalizedYear year)
         else if kpiName = ''bfr'' then calculateBFR extractedKPIs (normalizedYear year)
         else (case dbKey_of kpiName of
                 Some dbKey \<Rightarrow>
                   (case map_of extractedKPIs dbKey of
                      Some (Some t) \<Rightarrow>
                        (case member (map_of extractedKPIs dbKey) (normalizedYear year) of
                           Inl e \<Rightarrow> Inl e
                         | Inr c \<Rightarrow> Inr (cell_or_null c))
                    | _ \<Rightarrow> final_fallback extractedKPIs kpiName (normalizedYear year))
               | None \<Rightarrow> final_fallback extractedKPIs kpiName (normalizedYear year)))"

section \<open>Year-over-year growth\<close>









section \<open>The ratio engine\<close>











section \<open>Fiscal years\<close>

text \<open>
  \<^verbatim>\<open>s.split('-')\<close> always has a first part: the result is that part and the list of
  the others, so that \<^verbatim>\<open>years[0]\<close> is the first component and \<^verbatim>\<open>years[1]\<close> the head
  of the second, \<^verbatim>\<open>undefined\<close> when there is none.
\<close>

fun split_on :: "char \<Rightarrow> string \<Rightarrow> string \<times> string list" where
  "split_on sep [] = ([], [])"
| "split_on sep (c # cs) =
     (case split_on sep cs of
        (p, ps) \<Rightarrow> if c = sep then ([], p # ps) else (c # p, ps))"

text \<open>\<^verbatim>\<open>years[1] || years[0]\<close>\<close>

definition second_or_first :: "string \<times> string list \<Rightarrow> string" where
  "second_or_first years =
     (case snd years of
        [] \<Rightarrow> fst years
      | y1 # rest \<Rightarrow> if y1 \<noteq> [] then y1 else fst years)"

text \<open>White space and line terminators in the Latin-1 range.\<close>

definition is_whitespace :: "char \<Rightarrow> bool" where
  "is_whitespace c = ((of_char c :: nat) \<in> {9, 10, 11, 12, 13, 32, 160})"

definition digit_value :: "nat \<Rightarrow> char \<Rightarrow> nat option" where
  "digit_value radix c =
     (let n = (of_char c :: nat);
          v = (if 48 \<le> n \<and> n \<le> 57 then Some (n - 48)
               else if 97 \<le> n \<and> n \<le> 122 then Some (n - 87)
               else if 65 \<le> n \<and> n \<le> 90 then Some (n - 55)
               else None)
      in case v of Some d \<Rightarrow> if d < radix then Some d else None | None \<Rightarrow> None)"

text \<open>The value of the longest prefix of digits, \<open>None\<close> when that prefix is empty.\<close>

fun parse_digits :: "nat \<Rightarrow> nat option \<Rightarrow> string \<Rightarrow> nat option" where
  "parse_digits radix acc [] = acc"
| "parse_digits radix acc (c # cs) =
     (case digit_value radix c of
        None \<Rightarrow> acc
      | Some d \<Rightarrow> parse_digits radix (Some ((case acc of None \<Rightarrow> 0 | Some a \<Rightarrow> a) * radix + d)) cs)"

text \<open>
  \<^verbatim>\<open>parseInt(s)\<close> with no radix: leading white space, a sign, the prefix \<^verbatim>\<open>0x\<close> for
  radix 16, then digits; \<open>None\<close> is \<^verbatim>\<open>NaN\<close>. The result of the code is a double: it is
  the integer computed here when that integer is below \<open>2 ^ 53\<close> in magnitude, and the
  statements about \<open>parseInt\<close> carry this bound as a hypothesis.
\<close>

definition parseInt :: "string \<Rightarrow> int option" where
  "parseInt s =
     (let s1 = dropWhile is_whitespace s;
          negative = (case s1 of c # cs \<Rightarrow> c = CHR ''-'' | [] \<Rightarrow> False);
          s2 = (case s1 of c # cs \<Rightarrow> if c = CHR ''-'' \<or> c = CHR ''+'' then cs else s1 | [] \<Rightarrow> s1);
          hex = (startsWith s2 ''0x'' \<or> startsWith s2 ''0X'');
          magnitude = (if hex then parse_digits 16 None (drop 2 s2) else parse_digits 10 None s2)
      in case magnitude of
           None \<Rightarrow> None
         | Some m \<Rightarrow> Some (if negative then - int m else int m))"

function show_nat :: "nat \<Rightarrow> string" where
  "show_nat n =
     (if n < 10 then [char_of (48 + n)] else show_nat (n div 10) @ [char_of (48 + n mod 10)])"
  by pat_completeness auto
termination
  by (relation "measure id") auto

declare show_nat.simps [simp del]

text \<open>\<^verbatim>\<open>String(n)\<close> for an integer, and for \<^verbatim>\<open>NaN\<close>.\<close>

definition number_to_string :: "int option \<Rightarrow> string" where
  "number_to_string n =
     (case n of
        None \<Rightarrow> ''NaN''
      | Some i \<Rightarrow> if i < 0 then CHR ''-'' # show_nat (nat (- i)) else show_nat (nat i))"

text \<open>\<^verbatim>\<open>String(parseInt(currentYear) - 1)\<close>\<close>

definition year_before :: "string \<Rightarrow> string" where
  "year_before currentYear =
     number_to_string (case parseInt currentYear of None \<Rightarrow> None | Some i \<Rightarrow> Some (i - 1))"

text \<open>
  \<^verbatim>\<open>m && m.available_years\<close>, truthy: an array, even an empty one, is truthy.
\<close>

definition metadata_years :: "metadata option \<Rightarrow> string list option" where
  "metadata_years m = (case m of None \<Rightarrow> None | Some md \<Rightarrow> available_years md)"

text \<open>
  \<^verbatim>\<open>getAvailableYears()\<close>. Its inputs are \<^verbatim>\<open>computedRatios\<close>, the record
  \<^verbatim>\<open>extractedKPIs._metadata\<close> and \<^verbatim>\<open>fiscalYears\<close> (\<open>None\<close> is \<^verbatim>\<open>null\<close>).
\<close>

definition getAvailableYears ::
  "computed_ratios \<Rightarrow> metadata option \<Rightarrow> string option \<Rightarrow> string list" where
  "getAvailableYears computedRatios extractedMetadata fiscalYears =
     (case metadata_years (cr_metadata computedRatios) of
        Some ys \<Rightarrow> ys
      | None \<Rightarrow>
         (case metadata_years extractedMetadata of
            Some ys \<Rightarrow> ys
          | None \<Rightarrow>
             (case fiscalYears of
                None \<Rightarrow> [''N'', ''N-1'']
              | Some fy \<Rightarrow>
                  if fy = [] then [''N'', ''N-1'']
                  else if js_includes fy ''-''
                  then (let years = split_on CHR ''-'' fy in [fst years, second_or_first years])
                  else (let currentYear = fy; previousYear = year_before currentYear
                        in [previousYear, currentYear]))))"

text \<open>
  The years that \<^verbatim>\<open>replaceYearPlaceholders()\<close> writes: \<open>(currentYear, previousYear)\<close>,
  where \<^verbatim>\<open>currentYear\<close> replaces the placeholder \<^verbatim>\<open>N\<close> and \<^verbatim>\<open>previousYear\<close> the
  placeholder \<^verbatim>\<open>N-1\<close>; \<open>None\<close> when the function returns at once and keeps the
  placeholders.
\<close>

definition replaceYearPlaceholders :: "string option \<Rightarrow> (string \<times> string) option" where
  "replaceYearPlaceholders fiscalYears =
     (case fiscalYears of
        None \<Rightarrow> None
      | Some fy \<Rightarrow>
          if fy = [] then None
          else if js_includes fy ''-''
          then (let years = split_on CHR ''-'' fy in Some (second_or_first years, fst years))
          else Some (fy, year_before fy))"

text \<open>The column title \<^verbatim>\<open>displayYear\<close> of \<^verbatim>\<open>generateFinancialTable()\<close>.\<close>

definition displayYear :: "string option \<Rightarrow> string \<Rightarrow> string" where
  "displayYear fiscalYears year =
     (case fiscalYears of
        None \<Rightarrow> year
      | Some fy \<Rightarrow>
          if fy = [] then year
          else if year = ''N''
          then (if js_includes fy ''-'' then second_or_first (split_on CHR ''-'' fy) else fy)
          else if year = ''N-1''
          then (if js_includes fy ''-'' then fst (split_on CHR ''-'' fy) else year_before fy)
          else year)"

section \<open>Company names of the uploaded documents\<close>

text \<open>\<^verbatim>\<open>s.trim()\<close>\<close>

definition trim :: "string \<Rightarrow> string" where
  "trim s = rev (dropWhile is_whitespace (rev (dropWhile is_whitespace s)))"

text \<open>\<^verbatim>\<open>[...new Set(xs)]\<close>: the distinct elements, each at its first occurrence.\<close>

fun set_insert_all :: "string list \<Rightarrow> string list \<Rightarrow> string list" where
  "set_insert_all seen [] = seen"
| "set_insert_all seen (x # xs) =
     (if x \<in> set seen then set_insert_all seen xs else set_insert_all (seen @ [x]) xs)"

fun join :: "string \<Rightarrow> string list \<Rightarrow> string" where
  "join sep [] = []"
| "join sep [x] = x"
| "join sep (x # y # ys) = x @ sep @ join sep (y # ys)"

record comparison_result =
  match :: bool
  reason :: string
  requires_confirmation :: bool
  recommendation :: string
  document_companies :: "string list"

text \<open>
  The check of \<^verbatim>\<open>verifyProfile\<close> on \<^verbatim>\<open>extracted_info.individual_results\<close>, given as the
  list of the \<^verbatim>\<open>company_name\<close> of each result (\<open>None\<close> is \<^verbatim>\<open>null\<close>). The result is the
  \<^verbatim>\<open>comparison_result\<close> handed to the mismatch dialog, or \<open>None\<close> when no dialog is
  opened and verification goes on.
\<close>

definition verifyProfile :: "string option list \<Rightarrow> comparison_result option" where
  "verifyProfile individual_results =
     (if length individual_results > 1
      then (let documentCompanies =
                  concat (map (\<lambda>name. case name of
                                         None \<Rightarrow> []
                                       | Some n \<Rightarrow> if n \<noteq> [] \<and> trim n \<noteq> [] then [n] else [])
                              individual_results);
                uniqueCompanies = set_insert_all [] documentCompanies
            in if length uniqueCompanies > 1
               then Some \<lparr> match = False,
                           reason = ''Different company names detected in uploaded documents'',
                           requires_confirmation = True,
                           recommendation =
                             ''Documents contain different company names: ''
                               @ join '', '' uniqueCompanies
                               @ ''. Please confirm if you want to proceed.'',
                           document_companies = uniqueCompanies \<rparr>
               else None)
      else None)"

section \<open>Keys and the resolution order of the specification\<close>

text \<open>
  KPI keys are identifiers: a lower-case letter, then lower-case letters, digits and
  underscores (\<^verbatim>\<open>chiffre_d_affaires\<close>, \<^verbatim>\<open>ebitda\<close>, \<^verbatim>\<open>dette_nette\<close>).
\<close>

definition is_kpi_key :: "string \<Rightarrow> bool" where
  "is_kpi_key k =
     (case k of
        [] \<Rightarrow> False
      | c # cs \<Rightarrow>
          97 \<le> (of_char c :: nat) \<and> (of_char c :: nat) \<le> 122
          \<and> list_all (\<lambda>x. (97 \<le> (of_char x :: nat) \<and> (of_char x :: nat) \<le> 122)
                          \<or> (48 \<le> (of_char x :: nat) \<and> (of_char x :: nat) \<le> 57)
                          \<or> x = CHR ''_'') cs)"

text \<open>
  The resolution order as the specification words it, for comparison with
  \<open>getKPIValue\<close>: the steps are tried in turn and the first one that yields a value gives
  the result. Step 3 yields a value when the table that the registry names holds a number
  at the normalised year; otherwise the search of step 4 runs.
\<close>

definition nested_spec :: "extracted_kpis \<Rightarrow> string \<Rightarrow> string \<Rightarrow> jsvalue option" where
  "nested_spec extractedKPIs key year =
     (case map_of kpiNameMappings key of
        None \<Rightarrow> None
      | Some dbKey \<Rightarrow>
          (case map_of extractedKPIs dbKey of
             Some (Some t) \<Rightarrow> (case map_of t year of Some (Some r) \<Rightarrow> Some (JNum r) | _ \<Rightarrow> None)
           | _ \<Rightarrow> None))"

definition resolve_spec ::
  "computed_ratios \<Rightarrow> extracted_kpis \<Rightarrow> string \<Rightarrow> string \<Rightarrow> js_error + jsvalue" where
  "resolve_spec computedRatios extractedKPIs key token =
     (if flat_get computedRatios (key @ ''_'' @ token) \<noteq> JUndefined
      then Inr (flat_get computedRatios (key @ ''_'' @ token))
      else if key = ''ebitda'' then calculateEBITDA extractedKPIs (normalizedYear token)
      else if key = ''bfr'' then calculateBFR extractedKPIs (normalizedYear token)
      else (case nested_spec extractedKPIs key (normalizedYear token) of
              Some v \<Rightarrow> Inr v
            | None \<Rightarrow> final_fallback extractedKPIs key (normalizedYear token)))"

text \<open>
  \<^verbatim>\<open>key.toLowerCase().includes(searchPattern) || searchPattern.includes(key.toLowerCase())\<close>
  for a label \<open>key\<close> and the search pattern of a KPI name.
\<close>

definition label_matches :: "string \<Rightarrow> string \<Rightarrow> bool" where
  "label_matches key kpiName =
     (js_includes (toLowerCase key) (replace_underscores (toLowerCase kpiName))
      \<or> js_includes (replace_underscores (toLowerCase kpiName)) (toLowerCase key))"

section \<open>Snapshots that hold any JSON value\<close>

text \<open>
  The snapshot is the result of \<^verbatim>\<open>JSON.parse\<close>, and nothing in the report script checks
  that it holds numbers. The resolver is therefore modelled a second time, over snapshots
  whose content is any JSON value: \<^verbatim>\<open>computed_ratios\<close> is an object, its \<^verbatim>\<open>_metadata\<close>
  record is one of its properties, \<^verbatim>\<open>extracted_kpis\<close> is an object whose entries are
  \<^verbatim>\<open>null\<close> or objects (the year tables, and the \<^verbatim>\<open>_metadata\<close> record that
  \<^verbatim>\<open>getAvailableYears\<close> and \<^verbatim>\<open>isMultiDocument\<close> read from it), and a property of
  these objects holds any JSON value. An entry of \<^verbatim>\<open>extracted_kpis\<close> that is a number, a
  string, a boolean or an array is not modelled. The definitions follow those of the
  resolver above line by line, and agree with them on a snapshot of numbers (lemma
  \<open>getKPIValue_json_of_snapshot\<close>).
\<close>

datatype json =
    JsonNull
  | JsonBool bool
  | JsonNumber rat
  | JsonString string
  | JsonArray "json list"
  | JsonObject "(string \<times> json) list"

type_synonym json_object = "(string \<times> json) list"

type_synonym json_kpis = "(string \<times> json_object option) list"

text \<open>\<^verbatim>\<open>ToBoolean\<close>\<close>

fun truthy :: "json \<Rightarrow> bool" where
  "truthy JsonNull = False"
| "truthy (JsonBool b) = b"
| "truthy (JsonNumber r) = (r \<noteq> 0)"
| "truthy (JsonString s) = (s \<noteq> [])"
| "truthy (JsonArray xs) = True"
| "truthy (JsonObject props) = True"

text \<open>
  The conversion of a value to a primitive, which the operators \<^verbatim>\<open>+\<close> and \<^verbatim>\<open>-\<close> and a
  template literal apply to an operand that is an object, raises \<^verbatim>\<open>TypeError\<close> when
  neither \<^verbatim>\<open>valueOf\<close> nor \<^verbatim>\<open>toString\<close> gives a primitive. For an object made by
  \<^verbatim>\<open>JSON.parse\<close> this is the case when it has an own property \<^verbatim>\<open>toString\<close>, which
  hides the inherited function and is not callable; \<^verbatim>\<open>valueOf\<close>, own or inherited,
  never gives a primitive. An array is converted by \<^verbatim>\<open>join\<close>, which converts its
  elements.
\<close>

fun conversion_raises :: "json \<Rightarrow> bool" where
  "conversion_raises (JsonObject props) = (map_of props ''toString'' \<noteq> None)"
| "conversion_raises (JsonArray xs) = list_ex conversion_raises xs"
| "conversion_raises v = False"

text \<open>
  What the resolver returns: \<^verbatim>\<open>undefined\<close>, a value of the snapshot, a member of
  \<^verbatim>\<open>Object.prototype\<close> named by the property it was read from, or the number that
  \<^verbatim>\<open>+\<close> and \<^verbatim>\<open>-\<close> give for operands that are not all numbers. The last one is
  \<^verbatim>\<open>NaN\<close> or the result of converting the operands; the model does not compute it.
\<close>

datatype jsany = AUndefined | AJson json | AInherited string | ANumber

definition is_number_or_null :: "jsany \<Rightarrow> bool" where
  "is_number_or_null v =
     (case v of
        AJson JsonNull \<Rightarrow> True
      | AJson (JsonNumber r) \<Rightarrow> True
      | ANumber \<Rightarrow> True
      | _ \<Rightarrow> False)"

text \<open>\<^verbatim>\<open>obj[k]\<close>, \<^verbatim>\<open>obj?.[k]\<close> and \<^verbatim>\<open>k in obj\<close> on an entry of \<^verbatim>\<open>extracted_kpis\<close>.\<close>

definition member_json :: "json_object option option \<Rightarrow> string \<Rightarrow> js_error + json option" where
  "member_json obj k = (case obj of Some (Some t) \<Rightarrow> Inr (map_of t k) | _ \<Rightarrow> Inl TypeError)"

definition opt_member_json :: "json_object option option \<Rightarrow> string \<Rightarrow> json option" where
  "opt_member_json obj k = (case obj of Some (Some t) \<Rightarrow> map_of t k | _ \<Rightarrow> None)"

definition in_json :: "string \<Rightarrow> json_object option \<Rightarrow> js_error + bool" where
  "in_json k obj = (case obj of Some t \<Rightarrow> Inr (map_of t k \<noteq> None) | None \<Rightarrow> Inl TypeError)"

text \<open>\<^verbatim>\<open>x || 0\<close>, \<^verbatim>\<open>x || null\<close> and plain \<^verbatim>\<open>x\<close> for the content of a table.\<close>

definition json_or_zero :: "json option \<Rightarrow> json" where
  "json_or_zero x = (case x of Some v \<Rightarrow> if truthy v then v else JsonNumber 0 | None \<Rightarrow> JsonNumber 0)"

definition json_or_null :: "json option \<Rightarrow> jsany" where
  "json_or_null x = (case x of Some v \<Rightarrow> if truthy v then AJson v else AJson JsonNull | None \<Rightarrow> AJson JsonNull)"

definition json_value :: "json option \<Rightarrow> jsany" where
  "json_value x = (case x of Some v \<Rightarrow> AJson v | None \<Rightarrow> AUndefined)"

text \<open>\<^verbatim>\<open>computedRatios[flatKey]\<close>\<close>

definition flat_json :: "json_object \<Rightarrow> string \<Rightarrow> jsany" where
  "flat_json computedRatios flatKey =
     (case js_get computedRatios flatKey of
        Own v \<Rightarrow> AJson v
      | Inherited p \<Rightarrow> AInherited p
      | Undefined \<Rightarrow> AUndefined)"

text \<open>
  \<^verbatim>\<open>a + b - c\<close> and \<^verbatim>\<open>a - b\<close>, followed by the template literal of the log line, which
  converts the same operands to strings.
\<close>

definition add_subtract :: "json \<Rightarrow> json \<Rightarrow> json \<Rightarrow> js_error + jsany" where
  "add_subtract a b c =
     (case (a, b, c) of
        (JsonNumber x, JsonNumber y, JsonNumber z) \<Rightarrow> Inr (AJson (JsonNumber (x + y - z)))
      | _ \<Rightarrow> if conversion_raises a \<or> conversion_raises b \<or> conversion_raises c
             then Inl TypeError else Inr ANumber)"

definition subtract :: "json \<Rightarrow> json \<Rightarrow> js_error + jsany" where
  "subtract a b =
     (case (a, b) of
        (JsonNumber x, JsonNumber y) \<Rightarrow> Inr (AJson (JsonNumber (x - y)))
      | _ \<Rightarrow> if conversion_raises a \<or> conversion_raises b then Inl TypeError else Inr ANumber)"

text \<open>The \<^verbatim>\<open>try\<close> blocks of \<^verbatim>\<open>calculateEBITDA\<close> and \<^verbatim>\<open>calculateBFR\<close>.\<close>

definition ebitda_body :: "json_kpis \<Rightarrow> string \<Rightarrow> js_error + jsany" where
  "ebitda_body extractedKPIs year =
     (let resultatExploitation =
            json_or_zero (opt_member_json (map_of extractedKPIs label_resultat_exploitation) year);
          dotationsExploitation =
            json_or_zero (opt_member_json (map_of extractedKPIs label_dotations_exploitation) year);
          reprisesExploitation =
            json_or_zero (opt_member_json (map_of extractedKPIs label_reprises_exploitation) year)
      in add_subtract resultatExploitation dotationsExploitation reprisesExploitation)"

definition bfr_body :: "json_kpis \<Rightarrow> string \<Rightarrow> js_error + jsany" where
  "bfr_body extractedKPIs year =
     (let actifCirculant =
            json_or_zero (opt_member_json (map_of extractedKPIs label_actif_circulant) year);
          passifCirculant =
            json_or_zero (opt_member_json (map_of extractedKPIs label_passif_circulant) year)
      in subtract actifCirculant passifCirculant)"

definition calculateEBITDA_json :: "json_kpis \<Rightarrow> string \<Rightarrow> js_error + jsany" where
  "calculateEBITDA_json extractedKPIs year =
     try_catch (ebitda_body extractedKPIs year) (\<lambda>error. Inr (AJson JsonNull))"

definition calculateBFR_json :: "json_kpis \<Rightarrow> string \<Rightarrow> js_error + jsany" where
  "calculateBFR_json extractedKPIs year =
     try_catch (bfr_body extractedKPIs year) (\<lambda>error. Inr (AJson JsonNull))"

fun search_entries_json :: "json_kpis \<Rightarrow> string \<Rightarrow> string \<Rightarrow> js_error + jsany" where
  "search_entries_json [] searchPattern year = Inr (AJson JsonNull)"
| "search_entries_json ((key, value) # rest) searchPattern year =
     (if js_includes (toLowerCase key) searchPattern \<or> js_includes searchPattern (toLowerCase key)
      then (if value \<noteq> None
            then (case in_json year value of
                    Inl e \<Rightarrow> Inl e
                  | Inr found \<Rightarrow>
                      if found
                      then (case member_json (Some value) year of
                              Inl e \<Rightarrow> Inl e
                            | Inr c \<Rightarrow> Inr (json_value c))
                      else search_entries_json rest searchPattern year)
            else search_entries_json rest searchPattern year)
      else search_entries_json rest searchPattern year)"

definition final_fallback_json :: "json_kpis \<Rightarrow> string \<Rightarrow> string \<Rightarrow> js_error + jsany" where
  "final_fallback_json extractedKPIs kpiName year =
     (if extractedKPIs \<noteq> []
      then search_entries_json extractedKPIs (replace_underscores (toLowerCase kpiName)) year
      else Inr (AJson JsonNull))"

definition getKPIValue_json ::
  "json_object \<Rightarrow> json_kpis \<Rightarrow> string \<Rightarrow> string \<Rightarrow> js_error + jsany" where
  "getKPIValue_json computedRatios extractedKPIs kpiName year =
     (let flatKey = kpiName @ ''_'' @ year
      in if flat_json computedRatios flatKey \<noteq> AUndefined
         then Inr (flat_json computedRatios flatKey)
         else if kpiName = ''ebitda'' then calculateEBITDA_json extractedKPIs (normalizedYear year)
         else if kpiName = ''bfr'' then calculateBFR_json extractedKPIs (normalizedYear year)
         else (case dbKey_of kpiName of
                 Some dbKey \<Rightarrow>
                   (case map_of extractedKPIs dbKey of
                      Some (Some t) \<Rightarrow>
                        (case member_json (map_of extractedKPIs dbKey) (normalizedYear year) of
                           Inl e \<Rightarrow> Inl e
                         | Inr c \<Rightarrow> Inr (json_or_null c))
                    | _ \<Rightarrow> final_fallback_json extractedKPIs kpiName (normalizedYear year))
               | None \<Rightarrow> final_fallback_json extractedKPIs kpiName (normalizedYear year)))"

text \<open>
  The snapshots on which the result for a key and a year is a number or \<^verbatim>\<open>null\<close>:
  the flat key is absent from \<^verbatim>\<open>computed_ratios\<close> and not inherited, or holds a number
  or \<^verbatim>\<open>null\<close>; and every table that the nested lookup or the final fallback can read
  for the key holds nothing, a number or \<^verbatim>\<open>null\<close> at the year.
\<close>

definition flat_numeric :: "json_object \<Rightarrow> string \<Rightarrow> bool" where
  "flat_numeric computedRatios flatKey =
     (flat_json computedRatios flatKey = AUndefined
      \<or> is_number_or_null (flat_json computedRatios flatKey))"

definition numeric_cell :: "json option \<Rightarrow> bool" where
  "numeric_cell c =
     (case c of None \<Rightarrow> True | Some JsonNull \<Rightarrow> True | Some (JsonNumber r) \<Rightarrow> True | _ \<Rightarrow> False)"

definition tables_numeric :: "json_kpis \<Rightarrow> string \<Rightarrow> string \<Rightarrow> bool" where
  "tables_numeric extractedKPIs kpiName year =
     list_all (\<lambda>(key, value).
                 case value of
                   None \<Rightarrow> True
                 | Some t \<Rightarrow>
                     (dbKey_of kpiName = Some key \<or> label_matches key kpiName)
                       \<longrightarrow> numeric_cell (map_of t year))
              extractedKPIs"

text \<open>
  A snapshot of numbers, as modelled by \<open>computed_ratios\<close> and \<open>extracted_kpis\<close>, seen as
  a snapshot of JSON values.
\<close>

definition json_of_cell :: "rat option \<Rightarrow> json" where
  "json_of_cell c = (case c of None \<Rightarrow> JsonNull | Some r \<Rightarrow> JsonNumber r)"

definition json_of_table :: "year_table \<Rightarrow> json_object" where
  "json_of_table t = map (\<lambda>(y, c). (y, json_of_cell c)) t"

definition json_of_kpis :: "extracted_kpis \<Rightarrow> json_kpis" where
  "json_of_kpis extractedKPIs = map (\<lambda>(key, value). (key, map_option json_of_table value)) extractedKPIs"

definition json_of_metadata :: "metadata \<Rightarrow> json" where
  "json_of_metadata m =
     JsonObject (case available_years m of
                   None \<Rightarrow> []
                 | Some years \<Rightarrow> [(''available_years'', JsonArray (map JsonString years))])"

definition json_of_ratios :: "computed_ratios \<Rightarrow> json_object" where
  "json_of_ratios computedRatios =
     (case cr_metadata computedRatios of
        Some m \<Rightarrow> [(''_metadata'', json_of_metadata m)]
      | None \<Rightarrow> [])
     @ map (\<lambda>(k, c). (k, json_of_cell c)) (entries computedRatios)"

definition jsany_of :: "computed_ratios \<Rightarrow> jsvalue \<Rightarrow> jsany" where
  "jsany_of computedRatios v =
     (case v of
        JUndefined \<Rightarrow> AUndefined
      | JNull \<Rightarrow> AJson JsonNull
      | JNum r \<Rightarrow> AJson (JsonNumber r)
      | JObject p \<Rightarrow>
          (case cr_metadata computedRatios of
             Some m \<Rightarrow> if p = ''_metadata'' then AJson (json_of_metadata m) else AInherited p
           | None \<Rightarrow> AInherited p))"

section \<open>Derived indicators\<close>

lemma calculateEBITDA_value:
  "calculateEBITDA extractedKPIs year =
     Inr (JNum (cell_or_zero (opt_member (map_of extractedKPIs label_resultat_exploitation) year)
              + cell_or_zero (opt_member (map_of extractedKPIs label_dotations_exploitation) year)
              - cell_or_zero (opt_member (map_of extractedKPIs label_reprises_exploitation) year)))"
  by (simp add: calculateEBITDA_def try_catch_def)

lemma calculateBFR_value:
  "calculateBFR extractedKPIs year =
     Inr (JNum (cell_or_zero (opt_member (map_of extractedKPIs label_actif_circulant) year)
              - cell_or_zero (opt_member (map_of extractedKPIs label_passif_circulant) year)))"
  by (simp add: calculateBFR_def try_catch_def)

lemma kpiNameMappings_nonempty: "map_of kpiNameMappings k = Some l \<Longrightarrow> l \<noteq> []"
  by (auto simp: kpiNameMappings_def label_resultat_exploitation_def
      label_dotations_exploitation_def label_reprises_exploitation_def
      label_actif_circulant_def label_passif_circulant_def split: if_splits)

lemma dbKey_of_registry: "map_of kpiNameMappings k = Some l \<Longrightarrow> dbKey_of k = Some l"
  using kpiNameMappings_nonempty[of k l] by (simp add: dbKey_of_def js_get_def)

text \<open>
  Claim C7. At every year for which the three dependent tables hold a number, the derived
  EBITDA is the operating result plus the operating allowances minus the operating
  reversals; at every year for which both tables hold a number, the derived BFR is the
  current assets minus the current liabilities.
\<close>

theorem derived_ebitda_bfr:
  "(map_of extractedKPIs label_resultat_exploitation = Some (Some t1)
      \<and> map_of t1 year = Some (Some re)
      \<and> map_of extractedKPIs label_dotations_exploitation = Some (Some t2)
      \<and> map_of t2 year = Some (Some dot)
      \<and> map_of extractedKPIs label_reprises_exploitation = Some (Some t3)
      \<and> map_of t3 year = Some (Some rep)
    \<longrightarrow> calculateEBITDA extractedKPIs year = Inr (JNum (re + dot - rep)))
   \<and> (map_of extractedKPIs label_actif_circulant = Some (Some t4)
      \<and> map_of t4 year = Some (Some ac)
      \<and> map_of extractedKPIs label_passif_circulant = Some (Some t5)
      \<and> map_of t5 year = Some (Some pc)
    \<longrightarrow> calculateBFR extractedKPIs year = Inr (JNum (ac - pc)))"
  by (simp add: calculateEBITDA_value calculateBFR_value opt_member_def year_get_def
      cell_or_zero_def)

text \<open>
  The instance of the specification: 500, 100 and 50 give an EBITDA of 550; 800 and 300
  give a BFR of 500.
\<close>

theorem derived_ebitda_bfr_witness:
  "calculateEBITDA
     [(label_resultat_exploitation, Some [(''N'', Some 500)]),
      (label_dotations_exploitation, Some [(''N'', Some 100)]),
      (label_reprises_exploitation, Some [(''N'', Some 50)]),
      (label_actif_circulant, Some [(''N'', Some 800)]),
      (label_passif_circulant, Some [(''N'', Some 300)])] ''N'' = Inr (JNum 550)
   \<and> calculateBFR
     [(label_resultat_exploitation, Some [(''N'', Some 500)]),
      (label_dotations_exploitation, Some [(''N'', Some 100)]),
      (label_reprises_exploitation, Some [(''N'', Some 50)]),
      (label_actif_circulant, Some [(''N'', Some 800)]),
      (label_passif_circulant, Some [(''N'', Some 300)])] ''N'' = Inr (JNum 500)"
  using derived_ebitda_bfr
    [of "[(label_resultat_exploitation, Some [(''N'', Some 500)]),
          (label_dotations_exploitation, Some [(''N'', Some 100)]),
          (label_reprises_exploitation, Some [(''N'', Some 50)]),
          (label_actif_circulant, Some [(''N'', Some 800)]),
          (label_passif_circulant, Some [(''N'', Some 300)])]"
        "[(''N'', Some 500)]" "''N''" 500 "[(''N'', Some 100)]" 100 "[(''N'', Some 50)]" 50
        "[(''N'', Some 800)]" 800 "[(''N'', Some 300)]" 300]
  by (simp add: label_resultat_exploitation_def label_dotations_exploitation_def
      label_reprises_exploitation_def label_actif_circulant_def label_passif_circulant_def)

section \<open>The branches of the resolver\<close>

lemma getKPIValue_flat:
  "flat_get cr (k @ ''_'' @ y) \<noteq> JUndefined \<Longrightarrow> getKPIValue cr ek k y = Inr (flat_get cr (k @ ''_'' @ y))"
  by (simp add: getKPIValue_def)

lemma getKPIValue_ebitda:
  "flat_get cr (''ebitda'' @ ''_'' @ y) = JUndefined \<Longrightarrow>
   getKPIValue cr ek ''ebitda'' y = calculateEBITDA ek (normalizedYear y)"
  by (simp add: getKPIValue_def)

lemma getKPIValue_bfr:
  "flat_get cr (''bfr'' @ ''_'' @ y) = JUndefined \<Longrightarrow>
   getKPIValue cr ek ''bfr'' y = calculateBFR ek (normalizedYear y)"
  by (simp add: getKPIValue_def)

lemma getKPIValue_nested:
  "k \<noteq> ''ebitda'' \<Longrightarrow> k \<noteq> ''bfr'' \<Longrightarrow> flat_get cr (k @ ''_'' @ y) = JUndefined \<Longrightarrow>
   dbKey_of k = Some d \<Longrightarrow> map_of ek d = Some (Some t) \<Longrightarrow>
   getKPIValue cr ek k y = Inr (cell_or_null (year_get t (normalizedYear y)))"
  by (simp add: getKPIValue_def member_def)

lemma getKPIValue_fallback:
  "k \<noteq> ''ebitda'' \<Longrightarrow> k \<noteq> ''bfr'' \<Longrightarrow> flat_get cr (k @ ''_'' @ y) = JUndefined \<Longrightarrow>
   (\<And>d t. dbKey_of k = Some d \<Longrightarrow> map_of ek d \<noteq> Some (Some t)) \<Longrightarrow>
   getKPIValue cr ek k y = final_fallback ek k (normalizedYear y)"
  by (auto simp add: getKPIValue_def split: option.splits)

section \<open>A stored zero in the nested table\<close>

text \<open>
  Claim C9. For a key with no derivation rule and no flat entry, whose label the registry
  gives and whose table exists, a stored \<open>0\<close> at the normalised year makes
  \<open>getKPIValue\<close> return \<^verbatim>\<open>null\<close>, exactly as a stored \<^verbatim>\<open>null\<close> or a missing year
  does: \<^verbatim>\<open>value || null\<close> turns every falsy content into \<^verbatim>\<open>null\<close>.
\<close>

theorem nested_zero_resolves_to_null:
  "kpiName \<noteq> ''ebitda'' \<Longrightarrow> kpiName \<noteq> ''bfr'' \<Longrightarrow>
   flat_get computedRatios (kpiName @ ''_'' @ year) = JUndefined \<Longrightarrow>
   map_of kpiNameMappings kpiName = Some dbKey \<Longrightarrow>
   map_of extractedKPIs dbKey = Some (Some t) \<Longrightarrow>
   map_of t (normalizedYear year) \<in> {Some (Some 0), Some None, None} \<Longrightarrow>
   getKPIValue computedRatios extractedKPIs kpiName year = Inr JNull"
  using getKPIValue_nested[OF _ _ _ dbKey_of_registry, of kpiName computedRatios year dbKey extractedKPIs t]
  by (auto simp: cell_or_null_def year_get_def)

theorem nested_zero_resolves_to_null_witness:
  "getKPIValue \<lparr>entries = [], cr_metadata = None\<rparr>
     [(''Capitaux propres'', Some [(''N'', Some 0), (''N-1'', Some 40)])] ''capitaux_propres'' ''n'' = Inr JNull"
proof -
  have flat: "flat_get \<lparr>entries = [], cr_metadata = None\<rparr> (''capitaux_propres'' @ ''_'' @ ''n'') = JUndefined"
    by (simp add: flat_get_def js_get_def object_prototype_props_def)
  have reg: "map_of kpiNameMappings ''capitaux_propres'' = Some ''Capitaux propres''"
    by (simp add: kpiNameMappings_def)
  have tbl: "map_of [(''Capitaux propres'', Some [(''N'', Some (0::rat)), (''N-1'', Some 40)])] ''Capitaux propres''
      = Some (Some [(''N'', Some 0), (''N-1'', Some 40)])"
    by simp
  have yr: "map_of [(''N'', Some (0::rat)), (''N-1'', Some 40)] (normalizedYear ''n'') \<in> {Some (Some 0), Some None, None}"
    by (simp add: normalizedYear_def js_get_def yearMappings_def)
  show ?thesis
    using nested_zero_resolves_to_null[OF _ _ flat reg tbl yr] by simp
qed

section \<open>Derivation with missing dependents\<close>




section \<open>Year tokens\<close>

lemma normalizedYear_tokens:
  "normalizedYear ''n'' = ''N''" "normalizedYear ''n1'' = ''N-1''" "normalizedYear ''n2'' = ''N-2''"
  "normalizedYear ''n3'' = ''N-3''" "normalizedYear ''n4'' = ''N-4''" "normalizedYear ''n5'' = ''N-5''"
  by (simp_all add: normalizedYear_def js_get_def yearMappings_def)

lemma normalizedYear_other:
  "year \<notin> {''n'', ''n1'', ''n2'', ''n3'', ''n4'', ''n5''} \<Longrightarrow>
   year \<notin> set object_prototype_props \<Longrightarrow> normalizedYear year = year"
  by (simp add: normalizedYear_def js_get_def yearMappings_def)

lemma native_text_not_inherited: "native_text p \<notin> set object_prototype_props"
  by (simp add: native_text_def object_prototype_props_def)

lemma normalizedYear_not_inherited: "normalizedYear year \<notin> set object_prototype_props"
proof (cases "map_of yearMappings year")
  case None
  then show ?thesis
    by (simp add: normalizedYear_def js_get_def native_text_not_inherited)
next
  case (Some v)
  then have "v \<in> {''N'', ''N-1'', ''N-2'', ''N-3'', ''N-4'', ''N-5''}"
    by (auto simp: yearMappings_def split: if_splits)
  then show ?thesis
    using Some by (auto simp add: normalizedYear_def js_get_def object_prototype_props_def)
qed

lemma registry_labels_not_inherited:
  "map_of kpiNameMappings k = Some l \<Longrightarrow> l \<notin> set object_prototype_props"
  by (auto simp: kpiNameMappings_def label_resultat_exploitation_def
      label_dotations_exploitation_def label_reprises_exploitation_def
      label_actif_circulant_def label_passif_circulant_def object_prototype_props_def
      split: if_splits)

lemma dbKey_of_not_inherited: "dbKey_of k = Some d \<Longrightarrow> d \<notin> set object_prototype_props"
  using registry_labels_not_inherited[of k] native_text_not_inherited
  by (auto simp: dbKey_of_def js_get_def split: option.splits if_splits)

text \<open>
  Claim C10 as stated fails for the tokens that name a member of \<^verbatim>\<open>Object.prototype\<close>:
  \<^verbatim>\<open>yearMappings['constructor']\<close> is the inherited function \<^verbatim>\<open>Object\<close>, which is truthy,
  so \<^verbatim>\<open>normalizedYear\<close> becomes that function and not the token. A table that holds a
  value under the year \<^verbatim>\<open>constructor\<close> is therefore not read under that key.
\<close>

theorem year_token_counterexample:
  "normalizedYear ''constructor'' \<noteq> ''constructor''
   \<and> getKPIValue \<lparr>entries = [], cr_metadata = None\<rparr>
        [(''Capitaux propres'', Some [(''constructor'', Some 5)])] ''capitaux_propres'' ''constructor''
      = Inr JNull"
  by (simp add: getKPIValue_def flat_get_def js_get_def object_prototype_props_def
      normalizedYear_def yearMappings_def native_text_def dbKey_of_def kpiNameMappings_def member_def
      year_get_def cell_or_null_def)

text \<open>
  Claim C10, amended. The six tokens \<^verbatim>\<open>n\<close>, \<^verbatim>\<open>n1\<close>, ..., \<^verbatim>\<open>n5\<close> are mapped to
  \<^verbatim>\<open>N\<close>, \<^verbatim>\<open>N-1\<close>, ..., \<^verbatim>\<open>N-5\<close>. Every other token that is not the name of a
  property inherited from \<^verbatim>\<open>Object.prototype\<close> passes through unchanged, and is the year
  key of the nested lookup and of the final fallback.
\<close>

theorem year_token_normalization:
  "normalizedYear ''n'' = ''N'' \<and> normalizedYear ''n1'' = ''N-1'' \<and> normalizedYear ''n2'' = ''N-2''
   \<and> normalizedYear ''n3'' = ''N-3'' \<and> normalizedYear ''n4'' = ''N-4''
   \<and> normalizedYear ''n5'' = ''N-5''
   \<and> (year \<notin> {''n'', ''n1'', ''n2'', ''n3'', ''n4'', ''n5''} \<and> year \<notin> set object_prototype_props
        \<longrightarrow> normalizedYear year = year
          \<and> (kpiName \<noteq> ''ebitda'' \<and> kpiName \<noteq> ''bfr''
               \<and> flat_get computedRatios (kpiName @ ''_'' @ year) = JUndefined
               \<and> map_of kpiNameMappings kpiName = Some dbKey
               \<and> map_of extractedKPIs dbKey = Some (Some t)
              \<longrightarrow> getKPIValue computedRatios extractedKPIs kpiName year
                   = Inr (cell_or_null (year_get t year)))
          \<and> (kpiName \<noteq> ''ebitda'' \<and> kpiName \<noteq> ''bfr''
               \<and> flat_get computedRatios (kpiName @ ''_'' @ year) = JUndefined
               \<and> (\<forall>d t. dbKey_of kpiName = Some d \<longrightarrow> map_of extractedKPIs d \<noteq> Some (Some t))
              \<longrightarrow> getKPIValue computedRatios extractedKPIs kpiName year
                   = final_fallback extractedKPIs kpiName year))"
  using normalizedYear_tokens normalizedYear_other[of year]
    getKPIValue_nested[OF _ _ _ dbKey_of_registry, of kpiName computedRatios year dbKey extractedKPIs t]
    getKPIValue_fallback[of kpiName computedRatios year extractedKPIs]
  by auto

text \<open>The tokens \<^verbatim>\<open>n6\<close> and \<^verbatim>\<open>2021\<close> are used as they are.\<close>

theorem year_token_normalization_witness:
  "normalizedYear ''n6'' = ''n6''
   \<and> getKPIValue \<lparr>entries = [], cr_metadata = None\<rparr>
        [(''Capitaux propres'', Some [(''n6'', Some 5)])] ''capitaux_propres'' ''n6'' = Inr (JNum 5)
   \<and> getKPIValue \<lparr>entries = [], cr_metadata = None\<rparr>
        [(''Dette nette'', Some [(''2021'', Some 9)])] ''dette_nette'' ''2021'' = Inr (JNum 9)"
proof -
  have a: "''n6'' \<notin> {''n'', ''n1'', ''n2'', ''n3'', ''n4'', ''n5''} \<and> ''n6'' \<notin> set object_prototype_props"
    by (simp add: object_prototype_props_def)
  have b: "''2021'' \<notin> {''n'', ''n1'', ''n2'', ''n3'', ''n4'', ''n5''} \<and> ''2021'' \<notin> set object_prototype_props"
    by (simp add: object_prototype_props_def)
  have f1: "flat_get \<lparr>entries = [], cr_metadata = None\<rparr> (''capitaux_propres'' @ ''_'' @ ''n6'') = JUndefined"
    by (simp add: flat_get_def js_get_def object_prototype_props_def)
  have f2: "flat_get \<lparr>entries = [], cr_metadata = None\<rparr> (''dette_nette'' @ ''_'' @ ''2021'') = JUndefined"
    by (simp add: flat_get_def js_get_def object_prototype_props_def)
  have reg: "map_of kpiNameMappings ''capitaux_propres'' = Some ''Capitaux propres''"
    by (simp add: kpiNameMappings_def)
  have noreg: "dbKey_of ''dette_nette'' = None"
    by (simp add: dbKey_of_def js_get_def kpiNameMappings_def object_prototype_props_def)
  have fb: "final_fallback [(''Dette nette'', Some [(''2021'', Some 9)])] ''dette_nette'' ''2021'' = Inr (JNum 9)"
    by code_simp
  show ?thesis
    using year_token_normalization[of "''n6''" "''capitaux_propres''" "\<lparr>entries = [], cr_metadata = None\<rparr>"
        "''Capitaux propres''" "[(''Capitaux propres'', Some [(''n6'', Some 5)])]" "[(''n6'', Some 5)]"]
      year_token_normalization[of "''2021''" "''dette_nette''" "\<lparr>entries = [], cr_metadata = None\<rparr>"
        dbKey "[(''Dette nette'', Some [(''2021'', Some 9)])]" t]
      a b f1 f2 reg noreg fb
    by (simp add: cell_or_null_def year_get_def)
qed

section \<open>The resolver never raises\<close>

lemma search_entries_result:
  "\<exists>v. search_entries ek p y = Inr v \<and> (v = JNull \<or> (\<exists>r. v = JNum r))"
proof (induction ek)
  case Nil
  show ?case by simp
next
  case (Cons a ek)
  obtain key val where a: "a = (key, val)" by (cases a)
  show ?case
    using Cons.IH
    by (cases val) (auto simp: a in_op_def member_def year_get_def cell_value_def split: option.splits)
qed

lemma final_fallback_result:
  "\<exists>v. final_fallback ek k y = Inr v \<and> (v = JNull \<or> (\<exists>r. v = JNum r))"
  using search_entries_result by (simp add: final_fallback_def)

lemma flat_get_cases:
  "flat_get cr f = JUndefined \<or> flat_get cr f = JNull \<or> (\<exists>r. flat_get cr f = JNum r)
   \<or> (\<exists>p. flat_get cr f = JObject p)"
  by (cases "flat_get cr f") auto

lemma getKPIValue_returns: "\<exists>v. getKPIValue cr ek k y = Inr v \<and> v \<noteq> JUndefined"
proof (cases "flat_get cr (k @ ''_'' @ y) = JUndefined")
  case False
  then show ?thesis by (simp add: getKPIValue_flat)
next
  case True
  have nested: "\<And>t. \<exists>v. Inr (cell_or_null (year_get t (normalizedYear y))) = (Inr v :: js_error + jsvalue) \<and> v \<noteq> JUndefined"
    by (simp add: cell_or_null_def split: cell.splits)
  have fb: "\<exists>v. final_fallback ek k (normalizedYear y) = Inr v \<and> v \<noteq> JUndefined"
    using final_fallback_result[of ek k "normalizedYear y"] by auto
  show ?thesis
    using True fb
    by (auto simp add: getKPIValue_def calculateEBITDA_value calculateBFR_value member_def
        cell_or_null_def split: option.splits cell.splits)
qed




subsection \<open>Snapshots of JSON values\<close>

lemma search_entries_json_returns:
  "\<exists>v. search_entries_json ek p y = Inr v \<and> v \<noteq> AUndefined"
proof (induction ek)
  case Nil
  show ?case by simp
next
  case (Cons a ek)
  obtain key val where a: "a = (key, val)" by (cases a)
  show ?case
    using Cons.IH
    by (cases val) (auto simp: a in_json_def member_json_def json_value_def split: option.splits)
qed

lemma add_subtract_cases:
  "add_subtract a b c = Inl TypeError \<or> (\<exists>v. add_subtract a b c = Inr v \<and> is_number_or_null v)"
  by (auto simp: add_subtract_def is_number_or_null_def split: json.splits)

lemma subtract_cases:
  "subtract a b = Inl TypeError \<or> (\<exists>v. subtract a b = Inr v \<and> is_number_or_null v)"
  by (auto simp: subtract_def is_number_or_null_def split: json.splits)

lemma calculateEBITDA_json_result:
  "\<exists>v. calculateEBITDA_json ek y = Inr v \<and> is_number_or_null v"
  using add_subtract_cases
    [of "json_or_zero (opt_member_json (map_of ek label_resultat_exploitation) y)"
        "json_or_zero (opt_member_json (map_of ek label_dotations_exploitation) y)"
        "json_or_zero (opt_member_json (map_of ek label_reprises_exploitation) y)"]
  by (auto simp: calculateEBITDA_json_def ebitda_body_def try_catch_def Let_def is_number_or_null_def)

lemma calculateBFR_json_result:
  "\<exists>v. calculateBFR_json ek y = Inr v \<and> is_number_or_null v"
  using subtract_cases
    [of "json_or_zero (opt_member_json (map_of ek label_actif_circulant) y)"
        "json_or_zero (opt_member_json (map_of ek label_passif_circulant) y)"]
  by (auto simp: calculateBFR_json_def bfr_body_def try_catch_def Let_def is_number_or_null_def)

lemma is_number_or_null_defined: "is_number_or_null v \<Longrightarrow> v \<noteq> AUndefined"
  by (auto simp: is_number_or_null_def)

lemma json_or_null_defined: "json_or_null c \<noteq> AUndefined"
  by (simp add: json_or_null_def split: option.splits)

lemma getKPIValue_json_returns:
  "\<exists>v. getKPIValue_json cr ek k y = Inr v \<and> v \<noteq> AUndefined"
proof (cases "flat_json cr (k @ ''_'' @ y) = AUndefined")
  case False
  then show ?thesis by (simp add: getKPIValue_json_def)
next
  case True
  have fb: "\<exists>v. final_fallback_json ek k (normalizedYear y) = Inr v \<and> v \<noteq> AUndefined"
    using search_entries_json_returns by (simp add: final_fallback_json_def)
  have e: "\<exists>v. calculateEBITDA_json ek (normalizedYear y) = Inr v \<and> v \<noteq> AUndefined"
    using calculateEBITDA_json_result is_number_or_null_defined by blast
  have b: "\<exists>v. calculateBFR_json ek (normalizedYear y) = Inr v \<and> v \<noteq> AUndefined"
    using calculateBFR_json_result is_number_or_null_defined by blast
  show ?thesis
    using True fb e b
    by (auto simp add: getKPIValue_json_def member_json_def json_or_null_defined
        split: option.splits)
qed

lemma search_entries_json_numeric:
  "list_all (\<lambda>(key, value). case value of None \<Rightarrow> True
       | Some t \<Rightarrow> (d = Some key \<or> label_matches key k) \<longrightarrow> numeric_cell (map_of t y)) ek \<Longrightarrow>
   \<exists>v. search_entries_json ek (replace_underscores (toLowerCase k)) y = Inr v \<and> is_number_or_null v"
proof (induction ek)
  case Nil
  show ?case by (simp add: is_number_or_null_def)
next
  case (Cons a ek)
  obtain key val where a: "a = (key, val)" by (cases a)
  show ?case
    using Cons
    by (cases val)
      (auto simp: a in_json_def member_json_def json_value_def label_matches_def numeric_cell_def
        is_number_or_null_def split: option.splits json.splits)
qed

lemma tables_numeric_nested:
  "tables_numeric ek k y \<Longrightarrow> dbKey_of k = Some d \<Longrightarrow> map_of ek d = Some (Some t) \<Longrightarrow>
   numeric_cell (map_of t y)"
proof -
  assume tn: "tables_numeric ek k y" and d: "dbKey_of k = Some d" and m: "map_of ek d = Some (Some t)"
  from m have "(d, Some t) \<in> set ek" by (rule map_of_SomeD)
  with tn d show ?thesis
    by (auto simp: tables_numeric_def list_all_iff)
qed

lemma json_or_null_numeric: "numeric_cell c \<Longrightarrow> is_number_or_null (json_or_null c)"
  by (auto simp: numeric_cell_def json_or_null_def is_number_or_null_def split: option.splits json.splits)

lemma getKPIValue_json_num_or_null:
  assumes f: "flat_numeric cr (k @ ''_'' @ y)" and t: "tables_numeric ek k (normalizedYear y)"
  shows "\<exists>v. getKPIValue_json cr ek k y = Inr v \<and> is_number_or_null v"
proof (cases "flat_json cr (k @ ''_'' @ y) = AUndefined")
  case False
  then show ?thesis using f by (simp add: getKPIValue_json_def flat_numeric_def)
next
  case True
  have fb: "\<exists>v. final_fallback_json ek k (normalizedYear y) = Inr v \<and> is_number_or_null v"
    using search_entries_json_numeric[of "dbKey_of k" k "normalizedYear y" ek] t
    by (auto simp add: final_fallback_json_def tables_numeric_def is_number_or_null_def)
  have n: "\<And>d t'. dbKey_of k = Some d \<Longrightarrow> map_of ek d = Some (Some t') \<Longrightarrow>
     is_number_or_null (json_or_null (map_of t' (normalizedYear y)))"
    using tables_numeric_nested[OF t] json_or_null_numeric by blast
  show ?thesis
    using True fb n calculateEBITDA_json_result[of ek "normalizedYear y"]
      calculateBFR_json_result[of ek "normalizedYear y"]
    by (auto simp add: getKPIValue_json_def member_json_def split: option.splits)
qed

subsection \<open>Agreement with the resolver over numbers\<close>

lemma json_of_cell_simps: "json_of_cell None = JsonNull" "json_of_cell (Some r) = JsonNumber r"
  by (simp_all add: json_of_cell_def)

lemma jsany_of_simps:
  "jsany_of cr JUndefined = AUndefined" "jsany_of cr JNull = AJson JsonNull"
  "jsany_of cr (JNum r) = AJson (JsonNumber r)"
  by (simp_all add: jsany_of_def)

lemma jsany_of_inherited:
  "p \<in> set object_prototype_props \<Longrightarrow> jsany_of cr (JObject p) = AInherited p"
  by (auto simp: jsany_of_def object_prototype_props_def split: option.splits)

lemma map_of_json_table: "map_of (json_of_table t) y = map_option json_of_cell (map_of t y)"
  by (induction t) (auto simp: json_of_table_def)

lemma map_of_json_kpis:
  "map_of (json_of_kpis ek) l = map_option (map_option json_of_table) (map_of ek l)"
  by (induction ek) (auto simp: json_of_kpis_def)

lemma map_of_json_entries:
  "map_of (map (\<lambda>(k, c). (k, json_of_cell c)) es) f = map_option json_of_cell (map_of es f)"
  by (induction es) auto

lemma flat_json_of_ratios: "flat_json (json_of_ratios cr) f = jsany_of cr (flat_get cr f)"
proof (cases "cr_metadata cr")
  case None
  then show ?thesis
    by (auto simp: flat_json_def json_of_ratios_def flat_get_def js_get_def jsany_of_simps
        jsany_of_inherited map_of_json_entries json_of_cell_simps split: option.splits)
next
  case (Some m)
  have "jsany_of cr (JObject ''_metadata'') = AJson (json_of_metadata m)"
    using Some by (simp add: jsany_of_def)
  then show ?thesis
    using Some
    by (auto simp: flat_json_def json_of_ratios_def flat_get_def js_get_def jsany_of_simps
        jsany_of_inherited map_of_json_entries json_of_cell_simps split: option.splits)
qed

lemma json_or_zero_of_kpis:
  "json_or_zero (opt_member_json (map_of (json_of_kpis ek) l) y)
     = JsonNumber (cell_or_zero (opt_member (map_of ek l) y))"
  by (auto simp: json_or_zero_def opt_member_json_def opt_member_def map_of_json_kpis
      map_of_json_table year_get_def cell_or_zero_def json_of_cell_simps split: option.splits)

lemma calculateEBITDA_json_of_kpis:
  "calculateEBITDA_json (json_of_kpis ek) y = map_sum id (jsany_of cr) (calculateEBITDA ek y)"
  by (simp add: calculateEBITDA_json_def ebitda_body_def json_or_zero_of_kpis add_subtract_def
      try_catch_def calculateEBITDA_value jsany_of_simps)

lemma calculateBFR_json_of_kpis:
  "calculateBFR_json (json_of_kpis ek) y = map_sum id (jsany_of cr) (calculateBFR ek y)"
  by (simp add: calculateBFR_json_def bfr_body_def json_or_zero_of_kpis subtract_def
      try_catch_def calculateBFR_value jsany_of_simps)

lemma search_entries_json_of_kpis:
  "search_entries_json (json_of_kpis ek) p y = map_sum id (jsany_of cr) (search_entries ek p y)"
proof (induction ek)
  case Nil
  show ?case by (simp add: json_of_kpis_def jsany_of_simps)
next
  case (Cons a ek)
  obtain key val where a: "a = (key, val)" by (cases a)
  have step: "\<And>v. json_of_kpis ((key, v) # ek) = (key, map_option json_of_table v) # json_of_kpis ek"
    by (simp add: json_of_kpis_def)
  show ?case
  proof (cases val)
    case None
    then show ?thesis using Cons.IH by (simp add: step a)
  next
    case (Some t)
    show ?thesis
      using Cons.IH
      by (auto simp: step a Some in_json_def in_op_def member_json_def member_def json_value_def
          cell_value_def year_get_def map_of_json_table json_of_cell_simps jsany_of_simps
          split: option.splits)
  qed
qed

lemma final_fallback_json_of_kpis:
  "final_fallback_json (json_of_kpis ek) k y = map_sum id (jsany_of cr) (final_fallback ek k y)"
  using search_entries_json_of_kpis[of ek _ y cr]
  by (simp add: final_fallback_json_def final_fallback_def json_of_kpis_def jsany_of_simps)

lemma json_or_null_of_table:
  "json_or_null (map_of (json_of_table t) y) = jsany_of cr (cell_or_null (year_get t y))"
  by (auto simp: json_or_null_def map_of_json_table cell_or_null_def year_get_def json_of_cell_simps
      jsany_of_simps split: option.splits)

lemma jsany_of_undefined: "jsany_of cr v = AUndefined \<longleftrightarrow> v = JUndefined"
  by (auto simp: jsany_of_def split: jsvalue.splits option.splits)

lemma getKPIValue_json_of_snapshot:
  "getKPIValue_json (json_of_ratios cr) (json_of_kpis ek) k y
     = map_sum id (jsany_of cr) (getKPIValue cr ek k y)"
proof (cases "flat_get cr (k @ ''_'' @ y) = JUndefined")
  case False
  then show ?thesis
    by (simp add: getKPIValue_json_def getKPIValue_def flat_json_of_ratios jsany_of_undefined)
next
  case True
  show ?thesis
    using True
    by (auto simp: getKPIValue_json_def getKPIValue_def flat_json_of_ratios jsany_of_simps
      calculateEBITDA_json_of_kpis calculateBFR_json_of_kpis final_fallback_json_of_kpis
      map_of_json_kpis member_json_def member_def json_or_null_of_table
      split: option.splits)
qed

subsection \<open>Results that are not numbers\<close>

lemma getKPIValue_json_empty:
  assumes "k @ ''_'' @ y \<notin> set object_prototype_props"
  shows "(\<exists>v. getKPIValue_json [] [] k y = Inr v \<and> is_number_or_null v)
         \<and> (k \<noteq> ''ebitda'' \<and> k \<noteq> ''bfr'' \<longrightarrow> getKPIValue_json [] [] k y = Inr (AJson JsonNull))"
proof -
  have f: "flat_json [] (k @ ''_'' @ y) = AUndefined"
    using assms by (simp add: flat_json_def js_get_def)
  have n: "\<exists>v. getKPIValue_json [] [] k y = Inr v \<and> is_number_or_null v"
    using f by (intro getKPIValue_json_num_or_null) (simp_all add: flat_numeric_def tables_numeric_def)
  have e: "k \<noteq> ''ebitda'' \<and> k \<noteq> ''bfr'' \<longrightarrow> getKPIValue_json [] [] k y = Inr (AJson JsonNull)"
    using f by (auto simp: getKPIValue_json_def final_fallback_json_def split: option.splits)
  show ?thesis using n e by blast
qed

lemma add_subtract_raises:
  "conversion_raises a \<or> conversion_raises b \<or> conversion_raises c \<Longrightarrow>
   add_subtract a b c = Inl TypeError"
  by (auto simp: add_subtract_def split: json.splits)

lemma subtract_raises:
  "conversion_raises a \<or> conversion_raises b \<Longrightarrow> subtract a b = Inl TypeError"
  by (auto simp: subtract_def split: json.splits)

lemma calculateEBITDA_json_exception:
  "conversion_raises
       (json_or_zero (opt_member_json (map_of ek label_resultat_exploitation) y))
     \<or> conversion_raises
       (json_or_zero (opt_member_json (map_of ek label_dotations_exploitation) y))
     \<or> conversion_raises
       (json_or_zero (opt_member_json (map_of ek label_reprises_exploitation) y)) \<Longrightarrow>
   ebitda_body ek y = Inl TypeError \<and> calculateEBITDA_json ek y = Inr (AJson JsonNull)"
  using add_subtract_raises
    [of "json_or_zero (opt_member_json (map_of ek label_resultat_exploitation) y)"
        "json_or_zero (opt_member_json (map_of ek label_dotations_exploitation) y)"
        "json_or_zero (opt_member_json (map_of ek label_reprises_exploitation) y)"]
  by (simp add: calculateEBITDA_json_def ebitda_body_def try_catch_def Let_def)

lemma calculateBFR_json_exception:
  "conversion_raises (json_or_zero (opt_member_json (map_of ek label_actif_circulant) y))
     \<or> conversion_raises (json_or_zero (opt_member_json (map_of ek label_passif_circulant) y)) \<Longrightarrow>
   bfr_body ek y = Inl TypeError \<and> calculateBFR_json ek y = Inr (AJson JsonNull)"
  using subtract_raises
    [of "json_or_zero (opt_member_json (map_of ek label_actif_circulant) y)"
        "json_or_zero (opt_member_json (map_of ek label_passif_circulant) y)"]
  by (simp add: calculateBFR_json_def bfr_body_def try_catch_def Let_def)

text \<open>
  Claim C8 as stated fails: the resolver returns whatever the snapshot holds, and the
  flat lookup also finds the members of \<^verbatim>\<open>Object.prototype\<close>. With the key \<^verbatim>\<open>_\<close> and
  the token \<^verbatim>\<open>proto__\<close> the flat key is \<^verbatim>\<open>__proto__\<close>, and the result on the empty
  snapshot is \<^verbatim>\<open>Object.prototype\<close>. With the key \<^verbatim>\<open>data\<close> and the token
  \<^verbatim>\<open>available_years\<close> the final fallback matches the label \<^verbatim>\<open>_metadata\<close> and returns
  the array of years. With a string in the table of \<^verbatim>\<open>Chiffre d'affaires\<close> the nested
  lookup returns the string. None of the three results is a number or \<^verbatim>\<open>null\<close>.
\<close>

theorem getKPIValue_not_number_counterexample:
  "getKPIValue_json [] [] ''_'' ''proto__'' = Inr (AInherited ''__proto__'')
   \<and> \<not> is_number_or_null (AInherited ''__proto__'')
   \<and> getKPIValue \<lparr>entries = [], cr_metadata = None\<rparr> [] ''_'' ''proto__'' = Inr (JObject ''__proto__'')
   \<and> is_kpi_key ''data''
   \<and> getKPIValue_json []
        [(''_metadata'',
          Some [(''total_documents'', JsonNumber 2),
                (''available_years'', JsonArray [JsonString ''2023'', JsonString ''2022''])])]
        ''data'' ''available_years''
      = Inr (AJson (JsonArray [JsonString ''2023'', JsonString ''2022'']))
   \<and> \<not> is_number_or_null (AJson (JsonArray [JsonString ''2023'', JsonString ''2022'']))
   \<and> is_kpi_key ''chiffre_d_affaires''
   \<and> getKPIValue_json [] [(''Chiffre d'affaires'', Some [(''N'', JsonString ''12 000'')])]
        ''chiffre_d_affaires'' ''n''
      = Inr (AJson (JsonString ''12 000''))
   \<and> \<not> is_number_or_null (AJson (JsonString ''12 000''))"
  by code_simp

text \<open>
  Claim C8, amended. For every key, year token and snapshot of JSON objects,
  \<open>getKPIValue_json\<close> returns and raises nothing, and what it returns is never
  \<^verbatim>\<open>undefined\<close>. The derivation rules return a number or \<^verbatim>\<open>null\<close>: when an operand
  cannot be converted to a primitive, the \<^verbatim>\<open>try\<close> block raises \<^verbatim>\<open>TypeError\<close>, which is
  caught and gives \<^verbatim>\<open>null\<close>. The result is a number or \<^verbatim>\<open>null\<close> when the flat key
  is absent and not inherited or holds a number or \<^verbatim>\<open>null\<close>, and the tables that the
  key can reach (the table of its registry label, and the tables whose label matches the
  key in the final fallback) hold nothing, a number or \<^verbatim>\<open>null\<close> at the normalised
  year. On the empty snapshot the result is a number or \<^verbatim>\<open>null\<close> when the flat key is
  not the name of a member of \<^verbatim>\<open>Object.prototype\<close>, and \<^verbatim>\<open>null\<close> when moreover the
  key has no derivation rule. On a snapshot of numbers \<open>getKPIValue_json\<close> and
  \<open>getKPIValue\<close> return the same.
\<close>

theorem getKPIValue_json_never_raises:
  "(\<exists>v. getKPIValue_json computedRatios extractedKPIs kpiName year = Inr v \<and> v \<noteq> AUndefined)
   \<and> (\<exists>v. calculateEBITDA_json extractedKPIs (normalizedYear year) = Inr v \<and> is_number_or_null v)
   \<and> (\<exists>v. calculateBFR_json extractedKPIs (normalizedYear year) = Inr v \<and> is_number_or_null v)
   \<and> (conversion_raises
         (json_or_zero (opt_member_json (map_of extractedKPIs label_resultat_exploitation)
            (normalizedYear year)))
       \<or> conversion_raises
         (json_or_zero (opt_member_json (map_of extractedKPIs label_dotations_exploitation)
            (normalizedYear year)))
       \<or> conversion_raises
         (json_or_zero (opt_member_json (map_of extractedKPIs label_reprises_exploitation)
            (normalizedYear year)))
        \<longrightarrow> ebitda_body extractedKPIs (normalizedYear year) = Inl TypeError
          \<and> calculateEBITDA_json extractedKPIs (normalizedYear year) = Inr (AJson JsonNull))
   \<and> (conversion_raises
         (json_or_zero (opt_member_json (map_of extractedKPIs label_actif_circulant)
            (normalizedYear year)))
       \<or> conversion_raises
         (json_or_zero (opt_member_json (map_of extractedKPIs label_passif_circulant)
            (normalizedYear year)))
        \<longrightarrow> bfr_body extractedKPIs (normalizedYear year) = Inl TypeError
          \<and> calculateBFR_json extractedKPIs (normalizedYear year) = Inr (AJson JsonNull))
   \<and> (flat_numeric computedRatios (kpiName @ ''_'' @ year)
        \<and> tables_numeric extractedKPIs kpiName (normalizedYear year)
        \<longrightarrow> (\<exists>v. getKPIValue_json computedRatios extractedKPIs kpiName year = Inr v
                 \<and> is_number_or_null v))
   \<and> (kpiName @ ''_'' @ year \<notin> set object_prototype_props
        \<longrightarrow> (\<exists>v. getKPIValue_json [] [] kpiName year = Inr v \<and> is_number_or_null v)
          \<and> (kpiName \<noteq> ''ebitda'' \<and> kpiName \<noteq> ''bfr''
               \<longrightarrow> getKPIValue_json [] [] kpiName year = Inr (AJson JsonNull)))
   \<and> getKPIValue_json (json_of_ratios numbers) (json_of_kpis tables) kpiName year
       = map_sum id (jsany_of numbers) (getKPIValue numbers tables kpiName year)"
  using getKPIValue_json_returns[of computedRatios extractedKPIs kpiName year]
    calculateEBITDA_json_result[of extractedKPIs "normalizedYear year"]
    calculateBFR_json_result[of extractedKPIs "normalizedYear year"]
    calculateEBITDA_json_exception[of extractedKPIs "normalizedYear year"]
    calculateBFR_json_exception[of extractedKPIs "normalizedYear year"]
    getKPIValue_json_num_or_null[of computedRatios kpiName year extractedKPIs]
    getKPIValue_json_empty[of kpiName year]
    getKPIValue_json_of_snapshot[of numbers tables kpiName year]
  by blast

text \<open>
  A snapshot with an operating result and current assets that cannot be converted to a
  primitive, and a net result of 7: both derivations raise in their \<^verbatim>\<open>try\<close> block and
  return \<^verbatim>\<open>null\<close>, and the net result resolves to a number.
\<close>

theorem getKPIValue_json_never_raises_witness:
  "conversion_raises
     (json_or_zero (opt_member_json (map_of
       [(label_resultat_exploitation, Some [(''N'', JsonObject [(''toString'', JsonNull)])]),
        (label_actif_circulant, Some [(''N'', JsonArray [JsonObject [(''toString'', JsonNull)]])]),
        (''R'' @ [CHR 0xE9] @ ''sultat Net'', Some [(''N'', JsonNumber 7)])]
       label_resultat_exploitation) ''N''))
   \<and> ebitda_body
     [(label_resultat_exploitation, Some [(''N'', JsonObject [(''toString'', JsonNull)])]),
      (label_actif_circulant, Some [(''N'', JsonArray [JsonObject [(''toString'', JsonNull)]])]),
      (''R'' @ [CHR 0xE9] @ ''sultat Net'', Some [(''N'', JsonNumber 7)])] ''N'' = Inl TypeError
   \<and> calculateEBITDA_json
     [(label_resultat_exploitation, Some [(''N'', JsonObject [(''toString'', JsonNull)])]),
      (label_actif_circulant, Some [(''N'', JsonArray [JsonObject [(''toString'', JsonNull)]])]),
      (''R'' @ [CHR 0xE9] @ ''sultat Net'', Some [(''N'', JsonNumber 7)])] ''N'' = Inr (AJson JsonNull)
   \<and> conversion_raises
     (json_or_zero (opt_member_json (map_of
       [(label_resultat_exploitation, Some [(''N'', JsonObject [(''toString'', JsonNull)])]),
        (label_actif_circulant, Some [(''N'', JsonArray [JsonObject [(''toString'', JsonNull)]])]),
        (''R'' @ [CHR 0xE9] @ ''sultat Net'', Some [(''N'', JsonNumber 7)])]
       label_actif_circulant) ''N''))
   \<and> bfr_body
     [(label_resultat_exploitation, Some [(''N'', JsonObject [(''toString'', JsonNull)])]),
      (label_actif_circulant, Some [(''N'', JsonArray [JsonObject [(''toString'', JsonNull)]])]),
      (''R'' @ [CHR 0xE9] @ ''sultat Net'', Some [(''N'', JsonNumber 7)])] ''N'' = Inl TypeError
   \<and> calculateBFR_json
     [(label_resultat_exploitation, Some [(''N'', JsonObject [(''toString'', JsonNull)])]),
      (label_actif_circulant, Some [(''N'', JsonArray [JsonObject [(''toString'', JsonNull)]])]),
      (''R'' @ [CHR 0xE9] @ ''sultat Net'', Some [(''N'', JsonNumber 7)])] ''N'' = Inr (AJson JsonNull)
   \<and> flat_numeric [(''_metadata'', JsonObject [(''total_documents'', JsonNumber 2)])]
        (''resultat_net'' @ ''_'' @ ''n'')
   \<and> tables_numeric
     [(label_resultat_exploitation, Some [(''N'', JsonObject [(''toString'', JsonNull)])]),
      (label_actif_circulant, Some [(''N'', JsonArray [JsonObject [(''toString'', JsonNull)]])]),
      (''R'' @ [CHR 0xE9] @ ''sultat Net'', Some [(''N'', JsonNumber 7)])] ''resultat_net'' ''N''
   \<and> (\<exists>v. getKPIValue_json [(''_metadata'', JsonObject [(''total_documents'', JsonNumber 2)])]
     [(label_resultat_exploitation, Some [(''N'', JsonObject [(''toString'', JsonNull)])]),
      (label_actif_circulant, Some [(''N'', JsonArray [JsonObject [(''toString'', JsonNull)]])]),
      (''R'' @ [CHR 0xE9] @ ''sultat Net'', Some [(''N'', JsonNumber 7)])] ''resultat_net'' ''n'' = Inr v
        \<and> is_number_or_null v)
   \<and> ''resultat_net'' @ ''_'' @ ''n'' \<notin> set object_prototype_props
   \<and> getKPIValue_json [] [] ''resultat_net'' ''n'' = Inr (AJson JsonNull)"
proof -
  let ?ek = "[(label_resultat_exploitation, Some [(''N'', JsonObject [(''toString'', JsonNull)])]),
      (label_actif_circulant, Some [(''N'', JsonArray [JsonObject [(''toString'', JsonNull)]])]),
      (''R'' @ [CHR 0xE9] @ ''sultat Net'', Some [(''N'', JsonNumber 7)])]"
  let ?cr = "[(''_metadata'', JsonObject [(''total_documents'', JsonNumber 2)])]"
  have n: "normalizedYear ''n'' = ''N''"
    by (simp add: normalizedYear_def js_get_def yearMappings_def)
  have e: "conversion_raises
     (json_or_zero (opt_member_json (map_of ?ek label_resultat_exploitation) ''N''))"
    by code_simp
  have b: "conversion_raises
     (json_or_zero (opt_member_json (map_of ?ek label_actif_circulant) ''N''))"
    by code_simp
  have f: "flat_numeric ?cr (''resultat_net'' @ ''_'' @ ''n'')" by code_simp
  have t: "tables_numeric ?ek ''resultat_net'' ''N''" by code_simp
  have p: "''resultat_net'' @ ''_'' @ ''n'' \<notin> set object_prototype_props"
    by (simp add: object_prototype_props_def)
  have k: "''resultat_net'' \<noteq> ''ebitda'' \<and> ''resultat_net'' \<noteq> ''bfr''" by simp
  show ?thesis
    using getKPIValue_json_never_raises[of ?cr ?ek "''resultat_net''" "''n''"]
      e b f t p k unfolding n
    by simp
qed

section \<open>The resolution order\<close>

lemma search_entries_no_match:
  "(\<forall>key t. (key, Some t) \<in> set ek \<and> label_matches key k \<longrightarrow> map_of t y = None) \<Longrightarrow>
   search_entries ek (replace_underscores (toLowerCase k)) y = Inr JNull"
proof (induction ek)
  case Nil
  show ?case by simp
next
  case (Cons a ek)
  obtain key val where a: "a = (key, val)" by (cases a)
  have IH: "search_entries ek (replace_underscores (toLowerCase k)) y = Inr JNull"
    using Cons by auto
  show ?case
  proof (cases val)
    case None
    then show ?thesis using IH by (simp add: a)
  next
    case (Some t)
    have "label_matches key k \<Longrightarrow> map_of t y = None"
      using Cons.prems a Some by auto
    then show ?thesis
      using IH Some
      by (auto simp: a in_op_def year_get_def label_matches_def split: option.splits)
  qed
qed

lemma search_entries_first_match:
  "(\<forall>key' t'. (key', Some t') \<in> set before \<and> label_matches key' k \<longrightarrow> map_of t' y = None) \<Longrightarrow>
   label_matches key k \<Longrightarrow> map_of t y = Some c \<Longrightarrow>
   search_entries (before @ (key, Some t) # after) (replace_underscores (toLowerCase k)) y
     = Inr (case c of None \<Rightarrow> JNull | Some r \<Rightarrow> JNum r)"
proof (induction before)
  case Nil
  then show ?case
    by (auto simp: in_op_def member_def year_get_def cell_value_def label_matches_def
        split: option.splits)
next
  case (Cons a before)
  obtain key' val where a: "a = (key', val)" by (cases a)
  have IH: "search_entries (before @ (key, Some t) # after) (replace_underscores (toLowerCase k)) y
     = Inr (case c of None \<Rightarrow> JNull | Some r \<Rightarrow> JNum r)"
    using Cons by auto
  show ?case
  proof (cases val)
    case None
    then show ?thesis using IH by (simp add: a)
  next
    case (Some t')
    have "label_matches key' k \<Longrightarrow> map_of t' y = None"
      using Cons.prems a Some by auto
    then show ?thesis
      using IH Some
      by (auto simp: a in_op_def year_get_def label_matches_def split: option.splits)
  qed
qed

text \<open>
  Claim C2 as stated fails at step 3: when the registry names a table that exists,
  \<open>getKPIValue\<close> returns what that table holds at the year, or \<^verbatim>\<open>null\<close>, and never
  goes on to the search of step 4. Here the table of \<^verbatim>\<open>Chiffre d'affaires\<close> is empty and
  a later label matches the search pattern with a value for \<^verbatim>\<open>N\<close>: the code returns
  \<^verbatim>\<open>null\<close>, the order of the specification gives 7.
\<close>

theorem resolution_order_counterexample:
  "getKPIValue \<lparr>entries = [], cr_metadata = None\<rparr>
     [(''Chiffre d'affaires'', Some []), (''Chiffre d affaires total'', Some [(''N'', Some 7)])]
     ''chiffre_d_affaires'' ''n'' = Inr JNull
   \<and> resolve_spec \<lparr>entries = [], cr_metadata = None\<rparr>
     [(''Chiffre d'affaires'', Some []), (''Chiffre d affaires total'', Some [(''N'', Some 7)])]
     ''chiffre_d_affaires'' ''n'' = Inr (JNum 7)"
  by code_simp

text \<open>
  Claim C2, amended. \<open>getKPIValue\<close> resolves in this order: (1) the flat entry
  \<^verbatim>\<open>key_token\<close> when it is defined; else (2) the derivation rule for \<^verbatim>\<open>ebitda\<close> or
  \<^verbatim>\<open>bfr\<close>; else (3) when the registry gives a label for the key and \<^verbatim>\<open>extractedKPIs\<close>
  has a table under that label, the content of the table at the normalised year, or
  \<^verbatim>\<open>null\<close> when that content is missing, \<^verbatim>\<open>null\<close> or zero, with no further fallback;
  else (4) the content, at the normalised year, of the first entry whose lower-cased label
  contains the search pattern or is contained in it and whose table has the year; else
  (5) \<^verbatim>\<open>null\<close>. A key absent from \<^verbatim>\<open>computed_ratios\<close> whose table
  \<^verbatim>\<open>Chiffre d'affaires\<close> holds 12000 for \<^verbatim>\<open>N\<close> resolves to 12000.
\<close>

theorem resolution_order:
  "(flat_get computedRatios (kpiName @ ''_'' @ year) \<noteq> JUndefined
      \<longrightarrow> getKPIValue computedRatios extractedKPIs kpiName year
          = Inr (flat_get computedRatios (kpiName @ ''_'' @ year)))
   \<and> (flat_get computedRatios (kpiName @ ''_'' @ year) = JUndefined \<and> kpiName = ''ebitda''
      \<longrightarrow> getKPIValue computedRatios extractedKPIs kpiName year
          = calculateEBITDA extractedKPIs (normalizedYear year))
   \<and> (flat_get computedRatios (kpiName @ ''_'' @ year) = JUndefined \<and> kpiName = ''bfr''
      \<longrightarrow> getKPIValue computedRatios extractedKPIs kpiName year
          = calculateBFR extractedKPIs (normalizedYear year))
   \<and> (flat_get computedRatios (kpiName @ ''_'' @ year) = JUndefined
       \<and> kpiName \<noteq> ''ebitda'' \<and> kpiName \<noteq> ''bfr''
       \<and> dbKey_of kpiName = Some dbKey \<and> map_of extractedKPIs dbKey = Some (Some t)
      \<longrightarrow> getKPIValue computedRatios extractedKPIs kpiName year
          = Inr (case map_of t (normalizedYear year) of
                   Some (Some r) \<Rightarrow> if r = 0 then JNull else JNum r
                 | _ \<Rightarrow> JNull))
   \<and> (flat_get computedRatios (kpiName @ ''_'' @ year) = JUndefined
       \<and> kpiName \<noteq> ''ebitda'' \<and> kpiName \<noteq> ''bfr''
       \<and> (\<forall>d t'. dbKey_of kpiName = Some d \<longrightarrow> map_of extractedKPIs d \<noteq> Some (Some t'))
       \<and> extractedKPIs = before @ (key, Some yt) # after
       \<and> label_matches key kpiName \<and> map_of yt (normalizedYear year) = Some c
       \<and> (\<forall>key' t'. (key', Some t') \<in> set before \<and> label_matches key' kpiName
                     \<longrightarrow> map_of t' (normalizedYear year) = None)
      \<longrightarrow> getKPIValue computedRatios extractedKPIs kpiName year
          = Inr (case c of None \<Rightarrow> JNull | Some r \<Rightarrow> JNum r))
   \<and> (flat_get computedRatios (kpiName @ ''_'' @ year) = JUndefined
       \<and> kpiName \<noteq> ''ebitda'' \<and> kpiName \<noteq> ''bfr''
       \<and> (\<forall>d t'. dbKey_of kpiName = Some d \<longrightarrow> map_of extractedKPIs d \<noteq> Some (Some t'))
       \<and> (\<forall>key' t'. (key', Some t') \<in> set extractedKPIs \<and> label_matches key' kpiName
                     \<longrightarrow> map_of t' (normalizedYear year) = None)
      \<longrightarrow> getKPIValue computedRatios extractedKPIs kpiName year = Inr JNull)
   \<and> (flat_get computedRatios (''chiffre_d_affaires'' @ ''_'' @ ''n'') = JUndefined
       \<and> map_of extractedKPIs ''Chiffre d'affaires'' = Some (Some ct)
       \<and> map_of ct ''N'' = Some (Some 12000)
      \<longrightarrow> getKPIValue computedRatios extractedKPIs ''chiffre_d_affaires'' ''n'' = Inr (JNum 12000))"
proof -
  have nested: "flat_get computedRatios (kpiName @ ''_'' @ year) = JUndefined
       \<and> kpiName \<noteq> ''ebitda'' \<and> kpiName \<noteq> ''bfr''
       \<and> dbKey_of kpiName = Some dbKey \<and> map_of extractedKPIs dbKey = Some (Some t)
      \<longrightarrow> getKPIValue computedRatios extractedKPIs kpiName year
          = Inr (case map_of t (normalizedYear year) of
                   Some (Some r) \<Rightarrow> if r = 0 then JNull else JNum r
                 | _ \<Rightarrow> JNull)"
    using getKPIValue_nested[of kpiName computedRatios year dbKey extractedKPIs t]
    by (auto simp: cell_or_null_def year_get_def split: option.splits)
  have first: "flat_get computedRatios (kpiName @ ''_'' @ year) = JUndefined
       \<and> kpiName \<noteq> ''ebitda'' \<and> kpiName \<noteq> ''bfr''
       \<and> (\<forall>d t'. dbKey_of kpiName = Some d \<longrightarrow> map_of extractedKPIs d \<noteq> Some (Some t'))
       \<and> extractedKPIs = before @ (key, Some yt) # after
       \<and> label_matches key kpiName \<and> map_of yt (normalizedYear year) = Some c
       \<and> (\<forall>key' t'. (key', Some t') \<in> set before \<and> label_matches key' kpiName
                     \<longrightarrow> map_of t' (normalizedYear year) = None)
      \<longrightarrow> getKPIValue computedRatios extractedKPIs kpiName year
          = Inr (case c of None \<Rightarrow> JNull | Some r \<Rightarrow> JNum r)"
  proof
    assume a: "flat_get computedRatios (kpiName @ ''_'' @ year) = JUndefined
       \<and> kpiName \<noteq> ''ebitda'' \<and> kpiName \<noteq> ''bfr''
       \<and> (\<forall>d t'. dbKey_of kpiName = Some d \<longrightarrow> map_of extractedKPIs d \<noteq> Some (Some t'))
       \<and> extractedKPIs = before @ (key, Some yt) # after
       \<and> label_matches key kpiName \<and> map_of yt (normalizedYear year) = Some c
       \<and> (\<forall>key' t'. (key', Some t') \<in> set before \<and> label_matches key' kpiName
                     \<longrightarrow> map_of t' (normalizedYear year) = None)"
    then have "\<And>d t'. dbKey_of kpiName = Some d \<Longrightarrow> map_of extractedKPIs d \<noteq> Some (Some t')"
      by blast
    then have "getKPIValue computedRatios extractedKPIs kpiName year
        = final_fallback extractedKPIs kpiName (normalizedYear year)"
      using a by (intro getKPIValue_fallback) blast+
    moreover have "final_fallback extractedKPIs kpiName (normalizedYear year)
        = Inr (case c of None \<Rightarrow> JNull | Some r \<Rightarrow> JNum r)"
      using a search_entries_first_match[of before kpiName "normalizedYear year" key yt c after]
      by (simp add: final_fallback_def)
    ultimately show "getKPIValue computedRatios extractedKPIs kpiName year
          = Inr (case c of None \<Rightarrow> JNull | Some r \<Rightarrow> JNum r)"
      by simp
  qed
  have none: "flat_get computedRatios (kpiName @ ''_'' @ year) = JUndefined
       \<and> kpiName \<noteq> ''ebitda'' \<and> kpiName \<noteq> ''bfr''
       \<and> (\<forall>d t'. dbKey_of kpiName = Some d \<longrightarrow> map_of extractedKPIs d \<noteq> Some (Some t'))
       \<and> (\<forall>key' t'. (key', Some t') \<in> set extractedKPIs \<and> label_matches key' kpiName
                     \<longrightarrow> map_of t' (normalizedYear year) = None)
      \<longrightarrow> getKPIValue computedRatios extractedKPIs kpiName year = Inr JNull"
  proof
    assume a: "flat_get computedRatios (kpiName @ ''_'' @ year) = JUndefined
       \<and> kpiName \<noteq> ''ebitda'' \<and> kpiName \<noteq> ''bfr''
       \<and> (\<forall>d t'. dbKey_of kpiName = Some d \<longrightarrow> map_of extractedKPIs d \<noteq> Some (Some t'))
       \<and> (\<forall>key' t'. (key', Some t') \<in> set extractedKPIs \<and> label_matches key' kpiName
                     \<longrightarrow> map_of t' (normalizedYear year) = None)"
    then have "\<And>d t'. dbKey_of kpiName = Some d \<Longrightarrow> map_of extractedKPIs d \<noteq> Some (Some t')"
      by blast
    then have "getKPIValue computedRatios extractedKPIs kpiName year
        = final_fallback extractedKPIs kpiName (normalizedYear year)"
      using a by (intro getKPIValue_fallback) blast+
    moreover have "final_fallback extractedKPIs kpiName (normalizedYear year) = Inr JNull"
      using a search_entries_no_match[of extractedKPIs kpiName "normalizedYear year"]
      by (simp add: final_fallback_def)
    ultimately show "getKPIValue computedRatios extractedKPIs kpiName year = Inr JNull"
      by simp
  qed
  have ny: "normalizedYear ''n'' = ''N''"
    by (simp add: normalizedYear_def js_get_def yearMappings_def)
  have reg: "dbKey_of ''chiffre_d_affaires'' = Some ''Chiffre d'affaires''"
    by (rule dbKey_of_registry) (simp add: kpiNameMappings_def)
  have ca: "flat_get computedRatios (''chiffre_d_affaires'' @ ''_'' @ ''n'') = JUndefined
       \<and> map_of extractedKPIs ''Chiffre d'affaires'' = Some (Some ct)
       \<and> map_of ct ''N'' = Some (Some 12000)
      \<longrightarrow> getKPIValue computedRatios extractedKPIs ''chiffre_d_affaires'' ''n'' = Inr (JNum 12000)"
    using getKPIValue_nested[OF _ _ _ reg, of computedRatios "''n''" extractedKPIs ct]
    by (auto simp: ny cell_or_null_def year_get_def)
  show ?thesis
    using nested first none ca
      getKPIValue_flat[of computedRatios kpiName year extractedKPIs]
      getKPIValue_ebitda[of computedRatios year extractedKPIs]
      getKPIValue_bfr[of computedRatios year extractedKPIs]
    by blast
qed

theorem resolution_order_witness:
  "getKPIValue \<lparr>entries = [(''marge_nette_n'', Some 3)], cr_metadata = None\<rparr> [] ''marge_nette'' ''n''
     = Inr (JNum 3)
   \<and> getKPIValue \<lparr>entries = [], cr_metadata = None\<rparr>
        [(''Chiffre d'affaires'', Some [(''N'', Some 12000)])] ''chiffre_d_affaires'' ''n''
     = Inr (JNum 12000)
   \<and> getKPIValue \<lparr>entries = [], cr_metadata = None\<rparr>
        [(''Chiffre d'affaires'', Some []), (''Chiffre d affaires total'', Some [(''N'', Some 7)])]
        ''chiffre_d_affaires'' ''n''
     = Inr JNull
   \<and> getKPIValue \<lparr>entries = [], cr_metadata = None\<rparr>
        [(''Capitaux propres'', Some [(''N'', Some 4)]), (''Dette nette'', Some [(''N'', Some 9)])]
        ''dette_nette'' ''n''
     = Inr (JNum 9)
   \<and> getKPIValue \<lparr>entries = [], cr_metadata = None\<rparr>
        [(''Capitaux propres'', Some [(''N'', Some 4)])] ''dette_nette'' ''n''
     = Inr JNull
   \<and> getKPIValue \<lparr>entries = [], cr_metadata = None\<rparr>
        [(''EBITDA'', Some [(''N'', Some 5)])] ''ebitda'' ''n''
     = Inr (JNum 0)
   \<and> getKPIValue \<lparr>entries = [], cr_metadata = None\<rparr>
        [(label_actif_circulant, Some [(''N'', Some 800)])] ''bfr'' ''n''
     = Inr (JNum 800)"
proof -
  have f1: "flat_get \<lparr>entries = [(''marge_nette_n'', Some 3)], cr_metadata = None\<rparr>
      (''marge_nette'' @ ''_'' @ ''n'') = JNum 3"
    by (simp add: flat_get_def js_get_def)
  have f2: "flat_get \<lparr>entries = [], cr_metadata = None\<rparr> (''chiffre_d_affaires'' @ ''_'' @ ''n'')
      = JUndefined"
    by (simp add: flat_get_def js_get_def object_prototype_props_def)
  have f3: "flat_get \<lparr>entries = [], cr_metadata = None\<rparr> (''dette_nette'' @ ''_'' @ ''n'') = JUndefined"
    by (simp add: flat_get_def js_get_def object_prototype_props_def)
  have ny: "normalizedYear ''n'' = ''N''"
    by (simp add: normalizedYear_def js_get_def yearMappings_def)
  have reg: "dbKey_of ''chiffre_d_affaires'' = Some ''Chiffre d'affaires''"
    by (rule dbKey_of_registry) (simp add: kpiNameMappings_def)
  have noreg: "dbKey_of ''dette_nette'' = None"
    by (simp add: dbKey_of_def js_get_def kpiNameMappings_def object_prototype_props_def)
  have m1: "label_matches ''Dette nette'' ''dette_nette''" by code_simp
  have m2: "\<not> label_matches ''Capitaux propres'' ''dette_nette''" by code_simp
  have c1: "getKPIValue \<lparr>entries = [(''marge_nette_n'', Some 3)], cr_metadata = None\<rparr> []
      ''marge_nette'' ''n'' = Inr (JNum 3)"
    using resolution_order[of "\<lparr>entries = [(''marge_nette_n'', Some 3)], cr_metadata = None\<rparr>"
        "''marge_nette''" "''n''" "[]"] f1
    by simp
  have c2: "getKPIValue \<lparr>entries = [], cr_metadata = None\<rparr>
        [(''Chiffre d'affaires'', Some [(''N'', Some 12000)])] ''chiffre_d_affaires'' ''n''
     = Inr (JNum 12000)"
    using resolution_order[of "\<lparr>entries = [], cr_metadata = None\<rparr>" "''chiffre_d_affaires''" "''n''"
        "[(''Chiffre d'affaires'', Some [(''N'', Some 12000)])]" dbKey t before key yt after c
        "[(''N'', Some 12000)]"] f2
    by simp
  have c3: "getKPIValue \<lparr>entries = [], cr_metadata = None\<rparr>
        [(''Chiffre d'affaires'', Some []), (''Chiffre d affaires total'', Some [(''N'', Some 7)])]
        ''chiffre_d_affaires'' ''n''
     = Inr JNull"
    using resolution_order[of "\<lparr>entries = [], cr_metadata = None\<rparr>" "''chiffre_d_affaires''" "''n''"
        "[(''Chiffre d'affaires'', Some []), (''Chiffre d affaires total'', Some [(''N'', Some 7)])]"
        "''Chiffre d'affaires''" "[]"] f2 reg
    by simp
  have c4: "getKPIValue \<lparr>entries = [], cr_metadata = None\<rparr>
        [(''Capitaux propres'', Some [(''N'', Some 4)]), (''Dette nette'', Some [(''N'', Some 9)])]
        ''dette_nette'' ''n''
     = Inr (JNum 9)"
    using resolution_order[of "\<lparr>entries = [], cr_metadata = None\<rparr>" "''dette_nette''" "''n''"
        "[(''Capitaux propres'', Some [(''N'', Some 4)]), (''Dette nette'', Some [(''N'', Some 9)])]"
        dbKey t "[(''Capitaux propres'', Some [(''N'', Some 4)])]" "''Dette nette''"
        "[(''N'', Some 9)]" "[]" "Some 9"] f3 noreg m1 m2 ny
    by simp
  have c5: "getKPIValue \<lparr>entries = [], cr_metadata = None\<rparr>
        [(''Capitaux propres'', Some [(''N'', Some 4)])] ''dette_nette'' ''n''
     = Inr JNull"
    using resolution_order[of "\<lparr>entries = [], cr_metadata = None\<rparr>" "''dette_nette''" "''n''"
        "[(''Capitaux propres'', Some [(''N'', Some 4)])]"] f3 noreg m2 ny
    by simp
  have f4: "flat_get \<lparr>entries = [], cr_metadata = None\<rparr> (''ebitda'' @ ''_'' @ ''n'') = JUndefined"
    "flat_get \<lparr>entries = [], cr_metadata = None\<rparr> (''bfr'' @ ''_'' @ ''n'') = JUndefined"
    by (simp_all add: flat_get_def js_get_def object_prototype_props_def)
  have d1: "calculateEBITDA [(''EBITDA'', Some [(''N'', Some 5)])] ''N'' = Inr (JNum 0)"
    by (simp add: calculateEBITDA_value opt_member_def cell_or_zero_def
        label_resultat_exploitation_def label_dotations_exploitation_def
        label_reprises_exploitation_def)
  have d2: "calculateBFR [(label_actif_circulant, Some [(''N'', Some 800)])] ''N'' = Inr (JNum 800)"
    by (simp add: calculateBFR_value opt_member_def cell_or_zero_def year_get_def
        label_actif_circulant_def label_passif_circulant_def)
  have c6: "getKPIValue \<lparr>entries = [], cr_metadata = None\<rparr>
        [(''EBITDA'', Some [(''N'', Some 5)])] ''ebitda'' ''n''
     = Inr (JNum 0)"
    using resolution_order[of "\<lparr>entries = [], cr_metadata = None\<rparr>" "''ebitda''" "''n''"
        "[(''EBITDA'', Some [(''N'', Some 5)])]"] f4 ny d1
    by simp
  have c7: "getKPIValue \<lparr>entries = [], cr_metadata = None\<rparr>
        [(label_actif_circulant, Some [(''N'', Some 800)])] ''bfr'' ''n''
     = Inr (JNum 800)"
    using resolution_order[of "\<lparr>entries = [], cr_metadata = None\<rparr>" "''bfr''" "''n''"
        "[(label_actif_circulant, Some [(''N'', Some 800)])]"] f4 ny d2
    by simp
  show ?thesis using c1 c2 c3 c4 c5 c6 c7 by simp
qed

section \<open>Growth between the two most recent years\<close>



section \<open>Ratios with a zero or negative denominator\<close>










section \<open>Company names that differ in case\<close>

text \<open>
  Claim C1 does not hold of \<^verbatim>\<open>verifyProfile\<close>: the names are compared as they are, by
  \<^verbatim>\<open>new Set\<close>, neither trimmed nor case-folded. Two documents that name
  \<^verbatim>\<open>Acme SA\<close> and \<^verbatim>\<open>ACME SA\<close> open the mismatch dialog with both names, and the three
  names of the specification are kept as three distinct companies.
\<close>

theorem verifyProfile_case_variants:
  "verifyProfile [Some ''Acme SA'', Some ''ACME SA'']
     = Some \<lparr> match = False,
               reason = ''Different company names detected in uploaded documents'',
               requires_confirmation = True,
               recommendation =
                 ''Documents contain different company names: Acme SA, ACME SA. Please confirm if you want to proceed.'',
               document_companies = [''Acme SA'', ''ACME SA''] \<rparr>
   \<and> map_option document_companies (verifyProfile [Some ''Acme SA'', Some ''ACME SA'', Some ''Other Co''])
     = Some [''Acme SA'', ''ACME SA'', ''Other Co'']"
  by code_simp

section \<open>Year labels from the fiscal years\<close>

lemma js_includes_char: "js_includes s [c] \<longleftrightarrow> c \<in> set s"
  by (induction s) auto

lemma split_on_no_separator: "sep \<notin> set s \<Longrightarrow> split_on sep s = (s, [])"
  by (induction s) auto

lemma split_on_first:
  "sep \<notin> set a \<Longrightarrow> split_on sep (a @ sep # b) = (a, fst (split_on sep b) # snd (split_on sep b))"
  by (induction a) (auto split: prod.splits)

lemma split_on_range:
  "sep \<notin> set a \<Longrightarrow> sep \<notin> set b \<Longrightarrow> split_on sep (a @ sep # b) = (a, [b])"
  by (simp add: split_on_first split_on_no_separator)

lemma digit_value_digit: "d < 10 \<Longrightarrow> digit_value 10 (char_of (48 + d)) = Some (d::nat)"
  by (simp add: digit_value_def Let_def)

lemma show_nat_chars: "c \<in> set (show_nat n) \<Longrightarrow> \<exists>d::nat. d < 10 \<and> c = char_of (48 + d)"
proof (induction n rule: show_nat.induct)
  case (1 n)
  show ?case
  proof (cases "n < 10")
    case True
    then show ?thesis using "1.prems" by (auto simp: show_nat.simps[of n])
  next
    case False
    then have "c \<in> set (show_nat (n div 10)) \<or> c = char_of (48 + n mod 10)"
      using "1.prems" by (auto simp: show_nat.simps[of n])
    then show ?thesis
    proof
      assume "c \<in> set (show_nat (n div 10))"
      then show ?thesis using "1.IH" False by simp
    next
      assume "c = char_of (48 + n mod 10)"
      moreover have "n mod 10 < 10" by simp
      ultimately show ?thesis by blast
    qed
  qed
qed

lemma show_nat_nonempty: "show_nat n \<noteq> []"
  by (cases "n < 10") (simp_all add: show_nat.simps[of n])

lemma parse_digits_append:
  "(\<And>c. c \<in> set s \<Longrightarrow> digit_value r c \<noteq> None) \<Longrightarrow>
   parse_digits r acc (s @ t) = parse_digits r (parse_digits r acc s) t"
proof (induction s arbitrary: acc)
  case Nil
  show ?case by simp
next
  case (Cons c s)
  then obtain d where d: "digit_value r c = Some d" by fastforce
  show ?case using Cons d by simp
qed

lemma parse_digits_show_nat: "parse_digits 10 None (show_nat n) = Some n"
proof (induction n rule: show_nat.induct)
  case (1 n)
  show ?case
  proof (cases "n < 10")
    case True
    then show ?thesis by (simp add: show_nat.simps[of n] digit_value_digit)
  next
    case False
    have digs: "\<And>c. c \<in> set (show_nat (n div 10)) \<Longrightarrow> digit_value 10 c \<noteq> None"
      using show_nat_chars digit_value_digit by fastforce
    have "parse_digits 10 None (show_nat n)
        = parse_digits 10 (parse_digits 10 None (show_nat (n div 10))) [char_of (48 + n mod 10)]"
      using False by (simp add: show_nat.simps[of n] parse_digits_append[OF digs])
    also have "\<dots> = Some (n div 10 * 10 + n mod 10)"
      using "1.IH" False by (simp add: digit_value_digit)
    finally show ?thesis by simp
  qed
qed

lemma digit_char_code: "(d::nat) < 10 \<Longrightarrow> (of_char (char_of (48 + d) :: char) :: nat) = 48 + d"
  by simp

lemma digit_char_plain:
  assumes "(d::nat) < 10"
  shows "\<not> is_whitespace (char_of (48 + d))" "char_of (48 + d) \<noteq> CHR ''-''"
    "char_of (48 + d) \<noteq> CHR ''+''" "char_of (48 + d) \<noteq> CHR ''x''"
    "char_of (48 + d) \<noteq> CHR ''X''"
proof -
  have v: "(of_char (char_of (48 + d) :: char) :: nat) = 48 + d"
    using assms by (rule digit_char_code)
  show "\<not> is_whitespace (char_of (48 + d))"
    using assms by (simp add: is_whitespace_def v)
  show "char_of (48 + d) \<noteq> CHR ''-''"
  proof
    assume "char_of (48 + d) = CHR ''-''"
    then have "(of_char (char_of (48 + d) :: char) :: nat) = of_char CHR ''-''" by simp
    then show False using v by simp
  qed
  show "char_of (48 + d) \<noteq> CHR ''+''"
  proof
    assume "char_of (48 + d) = CHR ''+''"
    then have "(of_char (char_of (48 + d) :: char) :: nat) = of_char CHR ''+''" by simp
    then show False using v by simp
  qed
  show "char_of (48 + d) \<noteq> CHR ''x''"
  proof
    assume "char_of (48 + d) = CHR ''x''"
    then have "(of_char (char_of (48 + d) :: char) :: nat) = of_char CHR ''x''" by simp
    then show False using v assms by simp
  qed
  show "char_of (48 + d) \<noteq> CHR ''X''"
  proof
    assume "char_of (48 + d) = CHR ''X''"
    then have "(of_char (char_of (48 + d) :: char) :: nat) = of_char CHR ''X''" by simp
    then show False using v assms by simp
  qed
qed

lemma show_nat_no_dash: "CHR ''-'' \<notin> set (show_nat n)"
proof
  assume "CHR ''-'' \<in> set (show_nat n)"
  then obtain d :: nat where "d < 10" "CHR ''-'' = char_of (48 + d)"
    using show_nat_chars by blast
  then show False using digit_char_plain(2)[of d] by simp
qed

lemma parseInt_show_nat: "parseInt (show_nat n) = Some (int n)"
proof -
  obtain c cs where s: "show_nat n = c # cs"
    using show_nat_nonempty[of n] by (cases "show_nat n") auto
  have c: "\<not> is_whitespace c" "c \<noteq> CHR ''-''" "c \<noteq> CHR ''+''"
    using show_nat_chars[of c n] digit_char_plain s by auto
  have nohex: "\<not> startsWith (c # cs) ''0x''" "\<not> startsWith (c # cs) ''0X''"
  proof -
    have "\<And>x. x \<in> set cs \<Longrightarrow> x \<noteq> CHR ''x'' \<and> x \<noteq> CHR ''X''"
      using show_nat_chars[of _ n] digit_char_plain s by fastforce
    then show "\<not> startsWith (c # cs) ''0x''" "\<not> startsWith (c # cs) ''0X''"
      by (cases cs; auto)+
  qed
  have "parse_digits 10 None (c # cs) = Some n"
    using parse_digits_show_nat[of n] s by simp
  then show ?thesis
    using c nohex by (simp add: parseInt_def s Let_def del: parse_digits.simps startsWith.simps)
qed

lemma year_before_show_nat: "year_before (show_nat n) = number_to_string (Some (int n - 1))"
  by (simp add: year_before_def parseInt_show_nat)

lemma range_includes_dash: "js_includes (ystart @ CHR ''-'' # yend) ''-''"
  by (simp add: js_includes_char)

text \<open>
  Claim C6. For a range \<^verbatim>\<open>Ystart-Yend\<close> (two parts without a dash, the second not
  empty) the placeholder \<^verbatim>\<open>N\<close> becomes \<^verbatim>\<open>Yend\<close> and the placeholder \<^verbatim>\<open>N-1\<close> becomes
  \<^verbatim>\<open>Ystart\<close>, in \<^verbatim>\<open>replaceYearPlaceholders\<close> and in the column titles;
  \<^verbatim>\<open>2022-2023\<close> gives 2023 and 2022. \<^verbatim>\<open>getAvailableYears\<close> returns the list
  \<^verbatim>\<open>_metadata.available_years\<close> of \<^verbatim>\<open>computed_ratios\<close> when there is one, else that of
  \<^verbatim>\<open>extracted_kpis\<close>; else, from the fiscal years, the two years \<^verbatim>\<open>[Ystart, Yend]\<close> of a
  range and \<^verbatim>\<open>[Y-1, Y]\<close> for a single year \<open>Y\<close> written in decimal and below
  \<open>2 ^ 53\<close>, where the doubles of \<^verbatim>\<open>parseInt\<close> are exact; else \<^verbatim>\<open>['N', 'N-1']\<close>.
\<close>

theorem fiscal_year_labels:
  "(CHR ''-'' \<notin> set ystart \<and> CHR ''-'' \<notin> set yend \<and> yend \<noteq> []
      \<longrightarrow> replaceYearPlaceholders (Some (ystart @ ''-'' @ yend)) = Some (yend, ystart)
        \<and> displayYear (Some (ystart @ ''-'' @ yend)) ''N'' = yend
        \<and> displayYear (Some (ystart @ ''-'' @ yend)) ''N-1'' = ystart)
   \<and> replaceYearPlaceholders (Some ''2022-2023'') = Some (''2023'', ''2022'')
   \<and> (cr_metadata computedRatios = Some m \<and> available_years m = Some ys
      \<longrightarrow> getAvailableYears computedRatios extractedMetadata fiscalYears = ys)
   \<and> (metadata_years (cr_metadata computedRatios) = None
       \<and> extractedMetadata = Some m \<and> available_years m = Some ys
      \<longrightarrow> getAvailableYears computedRatios extractedMetadata fiscalYears = ys)
   \<and> (metadata_years (cr_metadata computedRatios) = None \<and> metadata_years extractedMetadata = None
      \<longrightarrow> (CHR ''-'' \<notin> set ystart \<and> CHR ''-'' \<notin> set yend \<and> yend \<noteq> []
            \<longrightarrow> getAvailableYears computedRatios extractedMetadata (Some (ystart @ ''-'' @ yend))
                = [ystart, yend])
        \<and> (y < 2 ^ 53
            \<longrightarrow> getAvailableYears computedRatios extractedMetadata (Some (show_nat y))
                = [number_to_string (Some (int y - 1)), show_nat y])
        \<and> getAvailableYears computedRatios extractedMetadata None = [''N'', ''N-1''])"
proof -
  have range: "CHR ''-'' \<notin> set ystart \<and> CHR ''-'' \<notin> set yend \<and> yend \<noteq> []
      \<longrightarrow> replaceYearPlaceholders (Some (ystart @ ''-'' @ yend)) = Some (yend, ystart)
        \<and> displayYear (Some (ystart @ ''-'' @ yend)) ''N'' = yend
        \<and> displayYear (Some (ystart @ ''-'' @ yend)) ''N-1'' = ystart"
    using range_includes_dash[of ystart yend]
    by (auto simp add: replaceYearPlaceholders_def displayYear_def split_on_range
        second_or_first_def Let_def simp del: js_includes.simps)
  have ex: "replaceYearPlaceholders (Some ''2022-2023'') = Some (''2023'', ''2022'')"
    by code_simp
  have m1: "cr_metadata computedRatios = Some m \<and> available_years m = Some ys
      \<longrightarrow> getAvailableYears computedRatios extractedMetadata fiscalYears = ys"
    by (simp add: getAvailableYears_def metadata_years_def)
  have m2: "metadata_years (cr_metadata computedRatios) = None
       \<and> extractedMetadata = Some m \<and> available_years m = Some ys
      \<longrightarrow> getAvailableYears computedRatios extractedMetadata fiscalYears = ys"
    by (simp add: getAvailableYears_def metadata_years_def)
  have single: "\<not> js_includes (show_nat y) ''-''"
    using show_nat_no_dash[of y] by (simp add: js_includes_char)
  have m3: "metadata_years (cr_metadata computedRatios) = None \<and> metadata_years extractedMetadata = None
      \<longrightarrow> (CHR ''-'' \<notin> set ystart \<and> CHR ''-'' \<notin> set yend \<and> yend \<noteq> []
            \<longrightarrow> getAvailableYears computedRatios extractedMetadata (Some (ystart @ ''-'' @ yend))
                = [ystart, yend])
        \<and> (y < 2 ^ 53
            \<longrightarrow> getAvailableYears computedRatios extractedMetadata (Some (show_nat y))
                = [number_to_string (Some (int y - 1)), show_nat y])
        \<and> getAvailableYears computedRatios extractedMetadata None = [''N'', ''N-1'']"
    using range_includes_dash[of ystart yend] single show_nat_nonempty[of y]
    by (auto simp add: getAvailableYears_def split_on_range second_or_first_def
        year_before_show_nat Let_def simp del: js_includes.simps)
  show ?thesis using range ex m1 m2 m3 by blast
qed

theorem fiscal_year_labels_witness:
  "displayYear (Some ''2022-2023'') ''N'' = ''2023''
   \<and> displayYear (Some ''2022-2023'') ''N-1'' = ''2022''
   \<and> getAvailableYears \<lparr>entries = [], cr_metadata = Some \<lparr>available_years = Some [''N-2'', ''N-1'', ''N'']\<rparr>\<rparr>
        None (Some ''2022-2023'') = [''N-2'', ''N-1'', ''N'']
   \<and> getAvailableYears \<lparr>entries = [], cr_metadata = None\<rparr>
        (Some \<lparr>available_years = Some [''2021'', ''2022'', ''2023'']\<rparr>) (Some ''2023'')
        = [''2021'', ''2022'', ''2023'']
   \<and> getAvailableYears \<lparr>entries = [], cr_metadata = None\<rparr> None (Some ''2022-2023'') = [''2022'', ''2023'']
   \<and> getAvailableYears \<lparr>entries = [], cr_metadata = None\<rparr> None (Some ''2023'') = [''2022'', ''2023'']
   \<and> getAvailableYears \<lparr>entries = [], cr_metadata = None\<rparr> None None = [''N'', ''N-1'']"
proof -
  have s: "show_nat 2023 = ''2023''" "number_to_string (Some (int 2023 - 1)) = ''2022''"
    by code_simp+
  have bound: "(2023 :: nat) < 2 ^ 53" by simp
  have r: "''2022-2023'' = ''2022'' @ ''-'' @ ''2023''" by simp
  have d: "CHR ''-'' \<notin> set ''2022'' \<and> CHR ''-'' \<notin> set ''2023'' \<and> ''2023'' \<noteq> []" by simp
  have n: "metadata_years (cr_metadata \<lparr>entries = [], cr_metadata = None\<rparr>) = None"
    "metadata_years None = None"
    by (simp_all add: metadata_years_def)
  have c1: "displayYear (Some ''2022-2023'') ''N'' = ''2023''
      \<and> displayYear (Some ''2022-2023'') ''N-1'' = ''2022''"
    using fiscal_year_labels[of "''2022''" "''2023''"] d unfolding r[symmetric] by blast
  have c2: "getAvailableYears \<lparr>entries = [], cr_metadata = Some \<lparr>available_years = Some [''N-2'', ''N-1'', ''N'']\<rparr>\<rparr>
        None (Some ''2022-2023'') = [''N-2'', ''N-1'', ''N'']"
    using fiscal_year_labels[of ystart yend
        "\<lparr>entries = [], cr_metadata = Some \<lparr>available_years = Some [''N-2'', ''N-1'', ''N'']\<rparr>\<rparr>"
        "\<lparr>available_years = Some [''N-2'', ''N-1'', ''N'']\<rparr>" "[''N-2'', ''N-1'', ''N'']"
        None "Some ''2022-2023''"]
    by simp
  have c3: "getAvailableYears \<lparr>entries = [], cr_metadata = None\<rparr>
        (Some \<lparr>available_years = Some [''2021'', ''2022'', ''2023'']\<rparr>) (Some ''2023'')
        = [''2021'', ''2022'', ''2023'']"
    using fiscal_year_labels[of ystart yend "\<lparr>entries = [], cr_metadata = None\<rparr>"
        "\<lparr>available_years = Some [''2021'', ''2022'', ''2023'']\<rparr>" "[''2021'', ''2022'', ''2023'']"
        "Some \<lparr>available_years = Some [''2021'', ''2022'', ''2023'']\<rparr>" "Some ''2023''"] n
    by simp
  have c4: "getAvailableYears \<lparr>entries = [], cr_metadata = None\<rparr> None (Some ''2022-2023'') = [''2022'', ''2023'']
   \<and> getAvailableYears \<lparr>entries = [], cr_metadata = None\<rparr> None (Some ''2023'') = [''2022'', ''2023'']
   \<and> getAvailableYears \<lparr>entries = [], cr_metadata = None\<rparr> None None = [''N'', ''N-1'']"
    using fiscal_year_labels[of "''2022''" "''2023''" "\<lparr>entries = [], cr_metadata = None\<rparr>" m ys
        None fy 2023] n d s bound unfolding r[symmetric]
    by simp
  show ?thesis using c1 c2 c3 c4 by blast
qed

end
